theory Spec2Isabelle
  imports Complex_Main
begin

section \<open>The Voice.ai text-to-speech SDK: values, errors and the platform\<close>

text \<open>
  The SDK (\<^verbatim>\<open>voice-ai-tts-sdk.js\<close>) is a class \<^verbatim>\<open>VoiceAI\<close> around two private
  transports, \<^verbatim>\<open>_request\<close> (buffered) and \<^verbatim>\<open>_streamRequest\<close> (streaming).
  Each function of the class is a HOL function below, under its own name (without
  the leading underscore, which an Isabelle name cannot have).

  JavaScript values are one datatype. \<open>JUndefined\<close> is a missing argument or
  property; \<open>JBuffer\<close> is a Node Buffer (a byte sequence); an object is the list
  of its own properties in enumeration order, each key once.
\<close>

type_synonym buffer = string

datatype jsval =
    JUndefined
  | JNull
  | JBool bool
  | JNumber real
  | JString string
  | JBuffer buffer
  | JArray "jsval list"
  | JObject "(string \<times> jsval) list"

text \<open>What a \<^verbatim>\<open>throw\<close> or a \<^verbatim>\<open>reject\<close> carries: one of the SDK's error classes, a
  \<^verbatim>\<open>TypeError\<close> of the runtime, or the error object of a failed socket or file
  operation (named by its cause).\<close>

datatype err_class =
    VoiceAIError
  | AuthenticationError
  | PaymentRequiredError
  | NotFoundError
  | ValidationError
  | RateLimitError

datatype err_code = Status nat | Symbolic string

record voice_error =
  cls :: err_class
  message :: jsval
  code :: err_code
  details :: jsval

datatype thrown = Err voice_error | TypeError | IOError string

text \<open>The state of a promise when nothing more will happen. \<open>Uncaught t\<close>: an
  event handler threw \<open>t\<close> outside every \<^verbatim>\<open>try\<close> and outside the promise's executor,
  so the promise is never settled and the exception reaches the process.\<close>

datatype 'a outcome = Fulfilled 'a | Rejected thrown | Pending | Uncaught thrown

text \<open>The error classes' constructors. A default parameter value stands in for an
  argument that is \<^verbatim>\<open>undefined\<close>. \<^verbatim>\<open>Error\<close> keeps the string conversion of the
  message it is given; the model keeps the argument itself.\<close>

definition dflt :: "jsval \<Rightarrow> jsval \<Rightarrow> jsval" where
  "dflt v d = (if v = JUndefined then d else v)"

definition new_VoiceAIError :: "jsval \<Rightarrow> err_code \<Rightarrow> jsval \<Rightarrow> voice_error" where
  "new_VoiceAIError msg c det =
     \<lparr>cls = VoiceAIError, message = msg, code = c, details = dflt det JNull\<rparr>"

definition new_AuthenticationError :: "jsval \<Rightarrow> voice_error" where
  "new_AuthenticationError msg =
     (new_VoiceAIError (dflt msg (JString ''Invalid or missing API key'')) (Status 401) JUndefined)
       \<lparr>cls := AuthenticationError\<rparr>"

definition new_PaymentRequiredError :: "jsval \<Rightarrow> voice_error" where
  "new_PaymentRequiredError msg =
     (new_VoiceAIError (dflt msg (JString ''Insufficient credits or voice slot limit reached''))
        (Status 402) JUndefined)
       \<lparr>cls := PaymentRequiredError\<rparr>"

definition new_NotFoundError :: "jsval \<Rightarrow> voice_error" where
  "new_NotFoundError msg =
     (new_VoiceAIError (dflt msg (JString ''Resource not found'')) (Status 404) JUndefined)
       \<lparr>cls := NotFoundError\<rparr>"

definition new_ValidationError :: "jsval \<Rightarrow> jsval \<Rightarrow> voice_error" where
  "new_ValidationError msg det =
     (new_VoiceAIError msg (Status 422) det)\<lparr>cls := ValidationError\<rparr>"

definition new_RateLimitError :: "jsval \<Rightarrow> voice_error" where
  "new_RateLimitError msg =
     (new_VoiceAIError (dflt msg (JString ''Rate limit exceeded'')) (Status 429) JUndefined)
       \<lparr>cls := RateLimitError\<rparr>"

text \<open>\<^verbatim>\<open>error instanceof AuthenticationError\<close>.\<close>

fun instanceof_AuthenticationError :: "thrown \<Rightarrow> bool" where
  "instanceof_AuthenticationError (Err e) = (cls e = AuthenticationError)"
| "instanceof_AuthenticationError _ = False"

text \<open>The specification names error kinds instead of classes. A kind is read off an
  SDK error: each subclass is its kind, and a plain \<^verbatim>\<open>VoiceAIError\<close> is the timeout
  when its code is the symbol \<^verbatim>\<open>'TIMEOUT'\<close> and generic otherwise.\<close>

datatype kind =
  AUTHENTICATION | PAYMENT_REQUIRED | NOT_FOUND | VALIDATION | RATE_LIMIT | GENERIC | TIMEOUT

definition kind_of :: "voice_error \<Rightarrow> kind" where
  "kind_of e =
     (case cls e of
        AuthenticationError \<Rightarrow> AUTHENTICATION
      | PaymentRequiredError \<Rightarrow> PAYMENT_REQUIRED
      | NotFoundError \<Rightarrow> NOT_FOUND
      | ValidationError \<Rightarrow> VALIDATION
      | RateLimitError \<Rightarrow> RATE_LIMIT
      | VoiceAIError \<Rightarrow> (if code e = Symbolic ''TIMEOUT'' then TIMEOUT else GENERIC))"

text \<open>The specification's table from the status code of a response to the kind of
  the error, to compare the transport with.\<close>

definition status_kind :: "nat \<Rightarrow> kind" where
  "status_kind n =
     (if n = 401 then AUTHENTICATION else if n = 402 then PAYMENT_REQUIRED
      else if n = 404 then NOT_FOUND else if n = 422 then VALIDATION
      else if n = 429 then RATE_LIMIT else GENERIC)"

subsection \<open>Truthiness, \<^verbatim>\<open>typeof\<close> and property reads\<close>

fun truthy :: "jsval \<Rightarrow> bool" where
  "truthy JUndefined = False"
| "truthy JNull = False"
| "truthy (JBool b) = b"
| "truthy (JNumber x) = (x \<noteq> 0)"
| "truthy (JString s) = (s \<noteq> [])"
| "truthy _ = True"

text \<open>\<^verbatim>\<open>typeof v === 'object'\<close>.\<close>

fun is_object :: "jsval \<Rightarrow> bool" where
  "is_object JNull = True"
| "is_object (JBuffer _) = True"
| "is_object (JArray _) = True"
| "is_object (JObject _) = True"
| "is_object _ = False"

text \<open>\<^verbatim>\<open>v.k\<close> for the two property names the SDK reads off a parsed body, \<^verbatim>\<open>error\<close>
  and \<^verbatim>\<open>detail\<close>: reading a property of \<^verbatim>\<open>null\<close> or \<^verbatim>\<open>undefined\<close> throws a
  \<^verbatim>\<open>TypeError\<close>; an object gives its own property; every other value has no such
  property.\<close>

fun get_prop :: "jsval \<Rightarrow> string \<Rightarrow> thrown + jsval" where
  "get_prop JUndefined k = Inl TypeError"
| "get_prop JNull k = Inl TypeError"
| "get_prop (JObject kvs) k = Inr (case map_of kvs k of Some v \<Rightarrow> v | None \<Rightarrow> JUndefined)"
| "get_prop _ k = Inr JUndefined"

text \<open>An optional string argument (\<open>None\<close>: not given) is falsy when it is missing or
  empty.\<close>

definition given :: "string option \<Rightarrow> bool" where
  "given s = (case s of None \<Rightarrow> False | Some t \<Rightarrow> t \<noteq> [])"

subsection \<open>The platform\<close>

text \<open>A WHATWG URL object, as far as the SDK reads it. \<open>searchParams\<close> is the list
  behind \<^verbatim>\<open>url.searchParams\<close>, each value as it was handed to \<^verbatim>\<open>append\<close>; the
  \<^verbatim>\<open>search\<close> string is its serialization.\<close>

record url =
  protocol :: string
  hostname :: string
  port :: string
  pathname :: string
  searchParams :: "(string \<times> jsval) list"

text \<open>The functions of Node and of the language that the SDK calls and that are not
  part of the repository are parameters of the model:
  \<^item> \<open>JSON_parse\<close>: \<^verbatim>\<open>JSON.parse\<close>, \<open>None\<close> when it throws a \<^verbatim>\<open>SyntaxError\<close>;
  \<^item> \<open>toString\<close>: \<^verbatim>\<open>buffer.toString()\<close>, the UTF-8 decoding of a buffer;
  \<^item> \<open>new_URL\<close>: \<^verbatim>\<open>new URL(input, base)\<close>, \<open>None\<close> when it throws a \<^verbatim>\<open>TypeError\<close>;
  \<^item> \<open>urlencoded\<close>: the form-urlencoded serialization of a search-parameter list;
  \<^item> \<open>utf8_bytes\<close>: the UTF-8 encoding of a string, as the \<^verbatim>\<open>fs\<close> module writes one.\<close>

record platform =
  JSON_parse :: "string \<Rightarrow> jsval option"
  toString :: "buffer \<Rightarrow> string"
  new_URL :: "string \<Rightarrow> string \<Rightarrow> url option"
  urlencoded :: "(string \<times> jsval) list \<Rightarrow> string"
  utf8_bytes :: "string \<Rightarrow> buffer"

definition search :: "platform \<Rightarrow> url \<Rightarrow> string" where
  "search rt u = (if searchParams u = [] then [] else CHR ''?'' # urlencoded rt (searchParams u))"

definition searchParams_append :: "url \<Rightarrow> string \<Rightarrow> jsval \<Rightarrow> url" where
  "searchParams_append u k v = u\<lparr>searchParams := searchParams u @ [(k, v)]\<rparr>"

subsection \<open>The network and the file system\<close>

text \<open>The options object handed to \<^verbatim>\<open>https.request\<close> (\<open>rq_timeout = None\<close>: the
  object has no \<^verbatim>\<open>timeout\<close>), and what \<^verbatim>\<open>req.write\<close> was given: a value as it is, or
  the \<^verbatim>\<open>JSON.stringify\<close> of a value.\<close>

record request_options =
  rq_method :: string
  rq_hostname :: string
  rq_path :: string
  rq_port :: string
  rq_headers :: "(string \<times> string) list"
  rq_timeout :: "nat option"

datatype written = Verbatim jsval | Stringified jsval

type_synonym wire = "request_options \<times> written option"

text \<open>A response: the status line, the \<^verbatim>\<open>content-type\<close> header when there is one, and
  the chunks of the body in arrival order. The remote side answers a request with a
  response, fails it at the socket (refused, DNS, TLS), or stalls: the socket stays
  idle for longer than any timeout the request was given.\<close>

record response =
  statusCode :: nat
  content_type :: "string option"
  chunks :: "buffer list"

datatype reply = Responds response | Fails string | Stalls

text \<open>The events that \<^verbatim>\<open>https.request\<close> emits on the request for a reply. A stalled
  socket emits \<^verbatim>\<open>'timeout'\<close> only when the options carried a timeout.\<close>

datatype net_event = OnResponse response | OnError string | OnTimeout | Nothing

definition https_request :: "(wire \<Rightarrow> reply) \<Rightarrow> wire \<Rightarrow> net_event" where
  "https_request net rq =
     (case net rq of
        Responds res \<Rightarrow> OnResponse res
      | Fails cause \<Rightarrow> OnError cause
      | Stalls \<Rightarrow> (case rq_timeout (fst rq) of None \<Rightarrow> Nothing | Some t \<Rightarrow> OnTimeout))"

text \<open>The world outside the client: the requests put on the network so far, the files
  on disk (path to content), and the paths that the file system refuses to write,
  each with the cause it gives.\<close>

record world =
  sent :: "wire list"
  files :: "string \<Rightarrow> buffer option"
  fs_fault :: "string \<Rightarrow> string option"

text \<open>\<^verbatim>\<open>req.write(chunk)\<close> accepts a string or a buffer and throws a \<^verbatim>\<open>TypeError\<close> for
  any other value.\<close>

fun write_chunk :: "jsval \<Rightarrow> thrown + written" where
  "write_chunk (JString s) = Inr (Verbatim (JString s))"
| "write_chunk (JBuffer b) = Inr (Verbatim (JBuffer b))"
| "write_chunk _ = Inl TypeError"

section \<open>The client\<close>

definition BASE_URL :: string where
  "BASE_URL = ''https://dev.voice.ai''"

definition API_VERSION :: string where
  "API_VERSION = ''v1''"

record client =
  apiKey :: string
  baseUrl :: string
  timeout :: nat

record client_options =
  cfg_baseUrl :: "string option"
  cfg_timeout :: "nat option"

text \<open>\<^verbatim>\<open>constructor(apiKey, options = {})\<close>. It throws, or gives the client.\<close>

definition new_VoiceAI :: "string option \<Rightarrow> client_options \<Rightarrow> thrown + client" where
  "new_VoiceAI key options =
     (case key of
        None \<Rightarrow> Inl (Err (new_AuthenticationError (JString ''API key is required'')))
      | Some k \<Rightarrow>
          if k = [] then Inl (Err (new_AuthenticationError (JString ''API key is required'')))
          else Inr \<lparr>apiKey = k,
                    baseUrl = (case cfg_baseUrl options of
                                 None \<Rightarrow> BASE_URL
                               | Some b \<Rightarrow> if b = [] then BASE_URL else b),
                    timeout = (case cfg_timeout options of
                                 None \<Rightarrow> 60000
                               | Some t \<Rightarrow> if t = 0 then 60000 else t)\<rparr>)"

subsection \<open>The buffered transport, \<^verbatim>\<open>_request\<close>\<close>

text \<open>The \<^verbatim>\<open>options\<close> argument of both transports. \<open>params = None\<close> and
  \<open>body = JUndefined\<close>: not given.\<close>

record call_options =
  params :: "(string \<times> jsval) list option"
  body :: jsval
  headers :: "(string \<times> string) list"
  isFormData :: bool
  binary :: bool

definition no_options :: call_options where
  "no_options = \<lparr>params = None, body = JUndefined, headers = [], isFormData = False, binary = False\<rparr>"

text \<open>The loop over \<^verbatim>\<open>Object.entries(options.params)\<close>.\<close>

fun add_params :: "(string \<times> jsval) list \<Rightarrow> url \<Rightarrow> url" where
  "add_params [] u = u"
| "add_params ((key, v) # entries) u =
     add_params entries
       (if v \<noteq> JUndefined \<and> v \<noteq> JNull then searchParams_append u key v else u)"

text \<open>Setting a property of the headers object, and the spread
  \<^verbatim>\<open>...options.headers\<close> over it.\<close>

fun assign :: "(string \<times> string) list \<Rightarrow> string \<Rightarrow> string \<Rightarrow> (string \<times> string) list" where
  "assign [] k v = [(k, v)]"
| "assign ((k', v') # hs) k v = (if k' = k then (k, v) # hs else (k', v') # assign hs k v)"

fun spread :: "(string \<times> string) list \<Rightarrow> (string \<times> string) list \<Rightarrow> (string \<times> string) list" where
  "spread hs [] = hs"
| "spread hs ((k, v) # rest) = spread (assign hs k v) rest"

definition startsWith :: "string \<Rightarrow> string \<Rightarrow> bool" where
  "startsWith s p = (take (length p) s = p)"

text \<open>A property read inside the \<^verbatim>\<open>'end'\<close> handler, outside its \<^verbatim>\<open>try\<close>: when the read
  throws, nothing catches it.\<close>

definition reading :: "thrown + jsval \<Rightarrow> (jsval \<Rightarrow> 'a outcome) \<Rightarrow> 'a outcome" where
  "reading r k = (case r of Inl t \<Rightarrow> Uncaught t | Inr v \<Rightarrow> k v)"

text \<open>The \<^verbatim>\<open>'end'\<close> handler for a status of 400 or more.\<close>

definition request_error :: "platform \<Rightarrow> response \<Rightarrow> buffer \<Rightarrow> jsval outcome" where
  "request_error rt res buffer =
     (let errorData =
            (case JSON_parse rt (toString rt buffer) of
               Some v \<Rightarrow> v
             | None \<Rightarrow>
                 JObject [(''error'',
                   JString (if toString rt buffer = [] then ''Unknown error''
                            else toString rt buffer))])
      in if statusCode res = 401 then
           reading (get_prop errorData ''error'') (\<lambda>m. Rejected (Err (new_AuthenticationError m)))
         else if statusCode res = 402 then
           reading (get_prop errorData ''error'') (\<lambda>m. Rejected (Err (new_PaymentRequiredError m)))
         else if statusCode res = 404 then
           reading (get_prop errorData ''error'') (\<lambda>m. Rejected (Err (new_NotFoundError m)))
         else if statusCode res = 422 then
           reading (get_prop errorData ''error'') (\<lambda>m.
             reading (get_prop errorData ''detail'') (\<lambda>d.
               Rejected (Err (new_ValidationError m d))))
         else if statusCode res = 429 then
           reading (get_prop errorData ''error'') (\<lambda>m. Rejected (Err (new_RateLimitError m)))
         else
           reading (get_prop errorData ''error'') (\<lambda>m.
             reading (get_prop errorData ''detail'') (\<lambda>d.
               Rejected (Err (new_VoiceAIError m (Status (statusCode res)) d)))))"

text \<open>The whole \<^verbatim>\<open>'end'\<close> handler.\<close>

definition request_on_end :: "platform \<Rightarrow> call_options \<Rightarrow> response \<Rightarrow> jsval outcome" where
  "request_on_end rt options res =
     (let buffer = concat (chunks res)
      in if statusCode res \<ge> 400 then request_error rt res buffer
         else
           let contentType = (case content_type res of None \<Rightarrow> [] | Some c \<Rightarrow> c)
           in if startsWith contentType ''audio/'' \<or> binary options then Fulfilled (JBuffer buffer)
              else (case JSON_parse rt (toString rt buffer) of
                      Some v \<Rightarrow> Fulfilled v
                    | None \<Rightarrow> Fulfilled (JString (toString rt buffer))))"

text \<open>What the body of the request is written as; \<open>None\<close> when nothing is written.\<close>

definition request_body :: "call_options \<Rightarrow> thrown + written option" where
  "request_body options =
     (if truthy (body options) then
        if isFormData options then map_sum id Some (write_chunk (body options))
        else if is_object (body options) then Inr (Some (Stringified (body options)))
        else map_sum id Some (write_chunk (body options))
      else Inr None)"

text \<open>The \<^verbatim>\<open>requestOptions\<close> object of \<^verbatim>\<open>_request\<close>, for the URL \<open>u\<close> after the query
  parameters were added.\<close>

definition request_requestOptions ::
  "platform \<Rightarrow> client \<Rightarrow> string \<Rightarrow> url \<Rightarrow> call_options \<Rightarrow> request_options" where
  "request_requestOptions rt c method u options =
     (let hs = spread [(''Authorization'', ''Bearer '' @ apiKey c),
                       (''User-Agent'', ''VoiceAI-SDK/1.1.4'')] (headers options)
      in \<lparr>rq_method = method,
          rq_hostname = hostname u,
          rq_path = pathname u @ search rt u,
          rq_port = (if port u = [] then ''443'' else port u),
          rq_headers =
            (if truthy (body options) \<and> is_object (body options) \<and> \<not> isFormData options
             then assign hs ''Content-Type'' ''application/json'' else hs),
          rq_timeout = Some (timeout c)\<rparr>)"

text \<open>\<^verbatim>\<open>async _request(method, endpoint, options = {})\<close>: the promise it returns and the
  world it leaves. A \<^verbatim>\<open>throw\<close> in an async function rejects its promise.\<close>

definition request ::
  "platform \<Rightarrow> client \<Rightarrow> string \<Rightarrow> string \<Rightarrow> call_options \<Rightarrow> (wire \<Rightarrow> reply) \<Rightarrow> world
     \<Rightarrow> jsval outcome \<times> world" where
  "request rt c method endpoint options net w =
     (case new_URL rt (''/api/'' @ API_VERSION @ endpoint) (baseUrl c) of
        None \<Rightarrow> (Rejected TypeError, w)
      | Some url0 \<Rightarrow>
          if protocol url0 \<noteq> ''https:'' then
            (Rejected (Err (new_ValidationError (JString ''Only https baseUrl is supported'')
               JUndefined)), w)
          else
            let u = (case params options of None \<Rightarrow> url0 | Some ps \<Rightarrow> add_params ps url0);
                requestOptions = request_requestOptions rt c method u options
            in (case request_body options of
                 Inl t \<Rightarrow> (Rejected t, w)
               | Inr b \<Rightarrow>
                   ((case https_request net (requestOptions, b) of
                       OnResponse res \<Rightarrow> request_on_end rt options res
                     | OnError cause \<Rightarrow> Rejected (IOError cause)
                     | OnTimeout \<Rightarrow>
                         Rejected (Err (new_VoiceAIError (JString ''Request timeout'')
                           (Symbolic ''TIMEOUT'') JUndefined))
                     | Nothing \<Rightarrow> Pending),
                    w\<lparr>sent := sent w @ [(requestOptions, b)]\<rparr>)))"

subsection \<open>The streaming transport, \<^verbatim>\<open>_streamRequest\<close>\<close>

text \<open>The \<^verbatim>\<open>'end'\<close> handler of a response with a status of 400 or more: here the
  property read is inside the \<^verbatim>\<open>try\<close>.\<close>

definition stream_error :: "platform \<Rightarrow> response \<Rightarrow> response outcome" where
  "stream_error rt res =
     (let buffer = concat (chunks res)
      in case JSON_parse rt (toString rt buffer) of
           None \<Rightarrow>
             Rejected (Err (new_VoiceAIError (JString ''Request failed'')
               (Status (statusCode res)) JUndefined))
         | Some errorData \<Rightarrow>
             (case get_prop errorData ''error'' of
                Inl t \<Rightarrow>
                  Rejected (Err (new_VoiceAIError (JString ''Request failed'')
                    (Status (statusCode res)) JUndefined))
              | Inr m \<Rightarrow>
                  Rejected (Err (new_VoiceAIError m (Status (statusCode res)) JUndefined))))"

text \<open>The \<^verbatim>\<open>requestOptions\<close> object of \<^verbatim>\<open>_streamRequest\<close>.\<close>

definition streamRequest_requestOptions ::
  "client \<Rightarrow> string \<Rightarrow> url \<Rightarrow> call_options \<Rightarrow> request_options" where
  "streamRequest_requestOptions c method u options =
     \<lparr>rq_method = method,
      rq_hostname = hostname u,
      rq_path = pathname u,
      rq_port = (if port u = [] then ''443'' else port u),
      rq_headers =
        spread [(''Authorization'', ''Bearer '' @ apiKey c),
                (''Content-Type'', ''application/json''),
                (''User-Agent'', ''VoiceAI-SDK/1.1.4'')] (headers options),
      rq_timeout = None\<rparr>"

text \<open>\<^verbatim>\<open>_streamRequest(method, endpoint, options = {})\<close> is not an async function: it
  throws (\<open>Inl\<close>) or returns a promise (\<open>Inr\<close>). The promise is fulfilled with the
  response, whose body the caller then reads as a stream.\<close>

definition streamRequest ::
  "platform \<Rightarrow> client \<Rightarrow> string \<Rightarrow> string \<Rightarrow> call_options \<Rightarrow> (wire \<Rightarrow> reply) \<Rightarrow> world
     \<Rightarrow> (thrown + response outcome) \<times> world" where
  "streamRequest rt c method endpoint options net w =
     (case new_URL rt (''/api/'' @ API_VERSION @ endpoint) (baseUrl c) of
        None \<Rightarrow> (Inl TypeError, w)
      | Some u \<Rightarrow>
          if protocol u \<noteq> ''https:'' then
            (Inl (Err (new_ValidationError (JString ''Only https baseUrl is supported'')
               JUndefined)), w)
          else
            let requestOptions = streamRequest_requestOptions c method u options;
                b = (if truthy (body options) then Some (Stringified (body options)) else None)
            in (Inr (case https_request net (requestOptions, b) of
                       OnResponse res \<Rightarrow>
                         if statusCode res \<ge> 400 then stream_error rt res else Fulfilled res
                     | OnError cause \<Rightarrow> Rejected (IOError cause)
                     | OnTimeout \<Rightarrow> Pending
                     | Nothing \<Rightarrow> Pending),
                w\<lparr>sent := sent w @ [(requestOptions, b)]\<rparr>))"

subsection \<open>Voice management\<close>

record list_options =
  limit :: jsval
  offset :: jsval
  visibility :: jsval

definition listVoices ::
  "platform \<Rightarrow> client \<Rightarrow> list_options \<Rightarrow> (wire \<Rightarrow> reply) \<Rightarrow> world \<Rightarrow> jsval outcome \<times> world" where
  "listVoices rt c options net w =
     request rt c ''GET'' ''/tts/voices''
       (no_options\<lparr>params := Some [(''limit'', dflt (limit options) (JNumber 10)),
                                     (''offset'', dflt (offset options) (JNumber 0)),
                                     (''visibility'', visibility options)]\<rparr>)
       net w"

definition voice_id_required :: thrown where
  "voice_id_required = Err (new_ValidationError (JString ''Voice ID is required'') JUndefined)"

definition getVoice ::
  "platform \<Rightarrow> client \<Rightarrow> string option \<Rightarrow> (wire \<Rightarrow> reply) \<Rightarrow> world \<Rightarrow> jsval outcome \<times> world" where
  "getVoice rt c voiceId net w =
     (case voiceId of
        None \<Rightarrow> (Rejected voice_id_required, w)
      | Some v \<Rightarrow>
          if v = [] then (Rejected voice_id_required, w)
          else request rt c ''GET'' (''/tts/voice/'' @ v) no_options net w)"

definition updateVoice ::
  "platform \<Rightarrow> client \<Rightarrow> string option \<Rightarrow> jsval \<Rightarrow> (wire \<Rightarrow> reply) \<Rightarrow> world
     \<Rightarrow> jsval outcome \<times> world" where
  "updateVoice rt c voiceId updates net w =
     (case voiceId of
        None \<Rightarrow> (Rejected voice_id_required, w)
      | Some v \<Rightarrow>
          if v = [] then (Rejected voice_id_required, w)
          else request rt c ''PATCH'' (''/tts/voice/'' @ v) (no_options\<lparr>body := updates\<rparr>) net w)"

definition deleteVoice ::
  "platform \<Rightarrow> client \<Rightarrow> string option \<Rightarrow> (wire \<Rightarrow> reply) \<Rightarrow> world \<Rightarrow> jsval outcome \<times> world" where
  "deleteVoice rt c voiceId net w =
     (case voiceId of
        None \<Rightarrow> (Rejected voice_id_required, w)
      | Some v \<Rightarrow>
          if v = [] then (Rejected voice_id_required, w)
          else request rt c ''DELETE'' (''/tts/voice/'' @ v) no_options net w)"

subsection \<open>Speech generation\<close>

record speech_options =
  speech_text :: "string option"
  voice_id :: jsval
  audio_format :: jsval
  temperature :: jsval
  top_p :: jsval
  model :: jsval
  language :: jsval

text \<open>The body object that \<^verbatim>\<open>generateSpeech\<close> and \<^verbatim>\<open>streamSpeech\<close> build from the
  destructured options.\<close>

definition speech_body :: "string \<Rightarrow> speech_options \<Rightarrow> jsval" where
  "speech_body t options =
     JObject [(''text'', JString t),
              (''voice_id'', voice_id options),
              (''audio_format'', dflt (audio_format options) (JString ''mp3'')),
              (''temperature'', dflt (temperature options) (JNumber 1.0)),
              (''top_p'', dflt (top_p options) (JNumber 0.8)),
              (''model'', model options),
              (''language'', dflt (language options) (JString ''en''))]"

definition text_required :: thrown where
  "text_required = Err (new_ValidationError (JString ''Text is required'') JUndefined)"

definition generateSpeech ::
  "platform \<Rightarrow> client \<Rightarrow> speech_options \<Rightarrow> (wire \<Rightarrow> reply) \<Rightarrow> world \<Rightarrow> jsval outcome \<times> world" where
  "generateSpeech rt c options net w =
     (case speech_text options of
        None \<Rightarrow> (Rejected text_required, w)
      | Some t \<Rightarrow>
          if t = [] then (Rejected text_required, w)
          else request rt c ''POST'' ''/tts/speech''
                 (no_options\<lparr>body := speech_body t options, binary := True\<rparr>) net w)"

text \<open>\<^verbatim>\<open>fs.writeFileSync(path, data)\<close>: the file system refuses the path with a cause
  (\<open>fs_fault\<close>), or the file then holds exactly the data. A write that fails half-way
  is not modelled.\<close>

fun file_bytes :: "platform \<Rightarrow> jsval \<Rightarrow> buffer option" where
  "file_bytes rt (JBuffer b) = Some b"
| "file_bytes rt (JString s) = Some (utf8_bytes rt s)"
| "file_bytes rt _ = None"

definition writeFileSync :: "platform \<Rightarrow> string \<Rightarrow> jsval \<Rightarrow> world \<Rightarrow> thrown + world" where
  "writeFileSync rt path data w =
     (case file_bytes rt data of
        None \<Rightarrow> Inl TypeError
      | Some b \<Rightarrow>
          (case fs_fault w path of
             Some cause \<Rightarrow> Inl (IOError cause)
           | None \<Rightarrow> Inr (w\<lparr>files := (files w)(path \<mapsto> b)\<rparr>)))"

definition generateSpeechToFile ::
  "platform \<Rightarrow> client \<Rightarrow> speech_options \<Rightarrow> string \<Rightarrow> (wire \<Rightarrow> reply) \<Rightarrow> world
     \<Rightarrow> string outcome \<times> world" where
  "generateSpeechToFile rt c options outputPath net w =
     (case generateSpeech rt c options net w of
        (Fulfilled audio, w1) \<Rightarrow>
          (case writeFileSync rt outputPath audio w1 of
             Inl t \<Rightarrow> (Rejected t, w1)
           | Inr w2 \<Rightarrow> (Fulfilled outputPath, w2))
      | (Rejected t, w1) \<Rightarrow> (Rejected t, w1)
      | (Pending, w1) \<Rightarrow> (Pending, w1)
      | (Uncaught t, w1) \<Rightarrow> (Uncaught t, w1))"

definition streamSpeech ::
  "platform \<Rightarrow> client \<Rightarrow> speech_options \<Rightarrow> (wire \<Rightarrow> reply) \<Rightarrow> world
     \<Rightarrow> response outcome \<times> world" where
  "streamSpeech rt c options net w =
     (case speech_text options of
        None \<Rightarrow> (Rejected text_required, w)
      | Some t \<Rightarrow>
          if t = [] then (Rejected text_required, w)
          else (case streamRequest rt c ''POST'' ''/tts/speech/stream''
                       (no_options\<lparr>body := speech_body t options\<rparr>) net w of
                  (Inl thrown, w1) \<Rightarrow> (Rejected thrown, w1)
                | (Inr promise, w1) \<Rightarrow> (promise, w1)))"

subsection \<open>Streaming to a file\<close>

text \<open>\<^verbatim>\<open>streamSpeechToFile\<close> creates a write stream on the output path, pipes the
  response into it and registers three listeners. What happens next is a sequence
  of events on the two streams:
  \<^item> on the response: a chunk arrives, the body ends, or the connection fails;
  \<^item> on the write stream: the file is opened (created or truncated), the chunk at the
    head of its queue reaches the disk, \<^verbatim>\<open>'finish'\<close> (everything written after
    \<^verbatim>\<open>end()\<close>), or \<^verbatim>\<open>'error'\<close>.\<close>

datatype event =
    Src_data buffer
  | Src_end
  | Src_error string
  | Sink_open
  | Sink_written
  | Sink_finish
  | Sink_error string

text \<open>The state of the pipeline: the promise that \<^verbatim>\<open>streamSpeechToFile\<close> returned,
  the chunks that \<^verbatim>\<open>write\<close> accepted and that are not on disk yet, whether \<^verbatim>\<open>end()\<close>
  was called on the write stream, and how far the two streams are.\<close>

record pipe =
  promise :: "string outcome"
  queue :: "buffer list"
  end_called :: bool
  src_over :: bool
  sink_opened :: bool
  sink_failed :: bool
  sink_finished :: bool

definition pipe0 :: pipe where
  "pipe0 = \<lparr>promise = Pending, queue = [], end_called = False, src_over = False,
             sink_opened = False, sink_failed = False, sink_finished = False\<rparr>"

text \<open>\<^verbatim>\<open>resolve\<close> and \<^verbatim>\<open>reject\<close> settle a promise once; later calls do nothing.\<close>

definition settle :: "'a outcome \<Rightarrow> 'a outcome \<Rightarrow> 'a outcome" where
  "settle p v = (case p of Pending \<Rightarrow> v | _ \<Rightarrow> p)"

text \<open>What each event runs. \<^verbatim>\<open>stream.pipe(writeStream)\<close> writes every chunk to the
  write stream and calls its \<^verbatim>\<open>end()\<close> when the response ends; it stops writing once
  the write stream has failed. The three listeners of the source are
  \<^verbatim>\<open>writeStream.on('finish', () => resolve(outputPath))\<close>,
  \<^verbatim>\<open>writeStream.on('error', reject)\<close> and \<^verbatim>\<open>stream.on('error', reject)\<close>.\<close>

fun handle :: "string \<Rightarrow> event \<Rightarrow> pipe \<times> world \<Rightarrow> pipe \<times> world" where
  "handle outputPath (Src_data chunk) (p, w) =
     (if sink_failed p then (p, w) else (p\<lparr>queue := queue p @ [chunk]\<rparr>, w))"
| "handle outputPath Src_end (p, w) =
     (if sink_failed p then (p\<lparr>src_over := True\<rparr>, w)
      else (p\<lparr>src_over := True, end_called := True\<rparr>, w))"
| "handle outputPath (Src_error cause) (p, w) =
     (p\<lparr>src_over := True, promise := settle (promise p) (Rejected (IOError cause))\<rparr>, w)"
| "handle outputPath Sink_open (p, w) =
     (p\<lparr>sink_opened := True\<rparr>, w\<lparr>files := (files w)(outputPath \<mapsto> [])\<rparr>)"
| "handle outputPath Sink_written (p, w) =
     (case queue p of
        [] \<Rightarrow> (p, w)
      | chunk # q \<Rightarrow>
          (p\<lparr>queue := q\<rparr>,
           w\<lparr>files := (files w)(outputPath \<mapsto>
                 (case files w outputPath of None \<Rightarrow> [] | Some d \<Rightarrow> d) @ chunk)\<rparr>))"
| "handle outputPath Sink_finish (p, w) =
     (p\<lparr>sink_finished := True, promise := settle (promise p) (Fulfilled outputPath)\<rparr>, w)"
| "handle outputPath (Sink_error cause) (p, w) =
     (p\<lparr>sink_failed := True, promise := settle (promise p) (Rejected (IOError cause))\<rparr>, w)"

fun run :: "string \<Rightarrow> pipe \<times> world \<Rightarrow> event list \<Rightarrow> pipe \<times> world" where
  "run outputPath s [] = s"
| "run outputPath s (e # es) = run outputPath (handle outputPath e s) es"

text \<open>The order in which Node emits these events: nothing on the response after its
  end or its error; the file is opened once, before anything is written to it; a
  chunk is written only when one is queued; \<^verbatim>\<open>'finish'\<close> comes once, after \<^verbatim>\<open>end()\<close>
  and when the queue is empty; a failed write stream emits nothing more.\<close>

fun enabled :: "pipe \<Rightarrow> event \<Rightarrow> bool" where
  "enabled p (Src_data chunk) = (\<not> src_over p)"
| "enabled p Src_end = (\<not> src_over p)"
| "enabled p (Src_error cause) = (\<not> src_over p)"
| "enabled p Sink_open = (\<not> sink_opened p \<and> \<not> sink_failed p)"
| "enabled p Sink_written = (sink_opened p \<and> \<not> sink_failed p \<and> queue p \<noteq> [])"
| "enabled p Sink_finish =
     (sink_opened p \<and> \<not> sink_failed p \<and> \<not> sink_finished p \<and> end_called p \<and> queue p = [])"
| "enabled p (Sink_error cause) = (\<not> sink_failed p \<and> \<not> sink_finished p)"

fun feasible :: "string \<Rightarrow> pipe \<times> world \<Rightarrow> event list \<Rightarrow> bool" where
  "feasible outputPath s [] = True"
| "feasible outputPath s (e # es) =
     (enabled (fst s) e \<and> feasible outputPath (handle outputPath e s) es)"

fun is_src :: "event \<Rightarrow> bool" where
  "is_src (Src_data chunk) = True"
| "is_src Src_end = True"
| "is_src (Src_error cause) = True"
| "is_src _ = False"

text \<open>The bytes that the response delivered during a sequence of events.\<close>

fun data_of :: "event list \<Rightarrow> buffer" where
  "data_of [] = []"
| "data_of (Src_data chunk # es) = chunk @ data_of es"
| "data_of (e # es) = data_of es"

text \<open>What holds of the pipeline after any feasible sequence of events that delivered
  the bytes \<open>acc\<close>: a finished write stream has an empty queue; \<^verbatim>\<open>end()\<close> is called
  only at the end of the response; and as long as the write stream has not failed,
  the file (once opened) followed by the queue is \<open>acc\<close>.\<close>

definition pipe_inv :: "string \<Rightarrow> buffer \<Rightarrow> pipe \<times> world \<Rightarrow> bool" where
  "pipe_inv outputPath acc s =
     (case s of (p, w) \<Rightarrow>
        (sink_finished p \<longrightarrow> queue p = [] \<and> src_over p \<and> sink_opened p)
      \<and> (end_called p \<longrightarrow> src_over p)
      \<and> (\<not> sink_failed p \<longrightarrow>
           (if sink_opened p
            then (case files w outputPath of
                    None \<Rightarrow> False
                  | Some d \<Rightarrow> d @ concat (queue p) = acc)
            else concat (queue p) = acc)))"

text \<open>The write stream has nothing left to do: it can neither open the file, nor
  write a chunk, nor emit \<^verbatim>\<open>'finish'\<close>.\<close>

definition quiescent :: "pipe \<Rightarrow> bool" where
  "quiescent p =
     (\<not> enabled p Sink_open \<and> \<not> enabled p Sink_written \<and> \<not> enabled p Sink_finish)"

text \<open>The events that a write stream which has not failed still owes once \<^verbatim>\<open>end()\<close> was
  called: the opening of the file, one write for each queued chunk, and
  \<^verbatim>\<open>'finish'\<close>.\<close>

definition drain :: "pipe \<Rightarrow> event list" where
  "drain p =
     (if sink_opened p then [] else [Sink_open]) @
     replicate (length (queue p)) Sink_written @
     (if sink_finished p then [] else [Sink_finish])"

text \<open>\<^verbatim>\<open>async streamSpeechToFile(options, outputPath)\<close>, with the events \<open>evs\<close> that
  follow the creation of the write stream.\<close>

definition streamSpeechToFile ::
  "platform \<Rightarrow> client \<Rightarrow> speech_options \<Rightarrow> string \<Rightarrow> (wire \<Rightarrow> reply) \<Rightarrow> event list \<Rightarrow> world
     \<Rightarrow> string outcome \<times> world" where
  "streamSpeechToFile rt c options outputPath net evs w =
     (case streamSpeech rt c options net w of
        (Fulfilled stream, w1) \<Rightarrow>
          (case run outputPath (pipe0, w1) evs of (p, w2) \<Rightarrow> (promise p, w2))
      | (Rejected t, w1) \<Rightarrow> (Rejected t, w1)
      | (Pending, w1) \<Rightarrow> (Pending, w1)
      | (Uncaught t, w1) \<Rightarrow> (Uncaught t, w1))"

subsection \<open>Utility methods\<close>

text \<open>The options of the probe, \<^verbatim>\<open>{ limit: 1 }\<close>.\<close>

definition probe :: list_options where
  "probe = \<lparr>limit = JNumber 1, offset = JUndefined, visibility = JUndefined\<rparr>"

definition validateApiKey ::
  "platform \<Rightarrow> client \<Rightarrow> (wire \<Rightarrow> reply) \<Rightarrow> world \<Rightarrow> bool outcome \<times> world" where
  "validateApiKey rt c net w =
     (case listVoices rt c probe net w of
        (Fulfilled v, w1) \<Rightarrow> (Fulfilled True, w1)
      | (Rejected error, w1) \<Rightarrow>
          (if instanceof_AuthenticationError error then (Fulfilled False, w1)
           else (Rejected error, w1))
      | (Pending, w1) \<Rightarrow> (Pending, w1)
      | (Uncaught t, w1) \<Rightarrow> (Uncaught t, w1))"

section \<open>A platform to run the model on\<close>

text \<open>The theorems below hold for every platform. To evaluate the model at concrete
  inputs, this one fixes the platform's functions on a handful of arguments:
  \<^verbatim>\<open>JSON.parse\<close> on five texts (and a syntax error on the text \<^verbatim>\<open>oops\<close>, which is
  all it is applied to otherwise), URL resolution against three bases, ASCII text
  for both conversions between strings and buffers, and the serialization of
  search parameters whose values are strings or one of the numbers 0, 1 and 10.\<close>

definition sample_parse :: "string \<Rightarrow> jsval option" where
  "sample_parse s =
     map_of [(''null'', JNull),
             (''{}'', JObject []),
             (''[]'', JArray []),
             (''{\"voices\":[]}'', JObject [(''voices'', JArray [])]),
             (''{\"error\":\"bad\",\"detail\":[]}'',
                JObject [(''error'', JString ''bad''), (''detail'', JArray [])])] s"

definition sample_URL :: "string \<Rightarrow> string \<Rightarrow> url option" where
  "sample_URL input base =
     (if base = ''https://dev.voice.ai'' then
        Some \<lparr>protocol = ''https:'', hostname = ''dev.voice.ai'', port = [],
              pathname = input, searchParams = []\<rparr>
      else if base = ''https://localhost:8443'' then
        Some \<lparr>protocol = ''https:'', hostname = ''localhost'', port = ''8443'',
              pathname = input, searchParams = []\<rparr>
      else if base = ''http://localhost:8080'' then
        Some \<lparr>protocol = ''http:'', hostname = ''localhost'', port = ''8080'',
              pathname = input, searchParams = []\<rparr>
      else None)"

fun sample_value :: "jsval \<Rightarrow> string" where
  "sample_value (JString s) = s"
| "sample_value (JNumber x) =
     (if x = 0 then ''0'' else if x = 1 then ''1'' else if x = 10 then ''10'' else [])"
| "sample_value _ = []"

fun sample_urlencoded :: "(string \<times> jsval) list \<Rightarrow> string" where
  "sample_urlencoded [] = []"
| "sample_urlencoded [(k, v)] = k @ ''='' @ sample_value v"
| "sample_urlencoded ((k, v) # kvs) = k @ ''='' @ sample_value v @ ''&'' @ sample_urlencoded kvs"

definition sample_platform :: platform where
  "sample_platform =
     \<lparr>JSON_parse = sample_parse, toString = (\<lambda>b. b), new_URL = sample_URL,
      urlencoded = sample_urlencoded, utf8_bytes = (\<lambda>s. s)\<rparr>"

definition sample_client :: client where
  "sample_client = \<lparr>apiKey = ''key'', baseUrl = BASE_URL, timeout = 60000\<rparr>"

definition sample_world :: world where
  "sample_world = \<lparr>sent = [], files = (\<lambda>path. None), fs_fault = (\<lambda>path. None)\<rparr>"

definition sample_speech :: speech_options where
  "sample_speech =
     \<lparr>speech_text = Some ''Hello'', voice_id = JUndefined, audio_format = JUndefined,
      temperature = JUndefined, top_p = JUndefined, model = JUndefined,
      language = JUndefined\<rparr>"

text \<open>A server that answers every request with one response.\<close>

definition answering :: "nat \<Rightarrow> string option \<Rightarrow> buffer list \<Rightarrow> wire \<Rightarrow> reply" where
  "answering status ctype cs rq =
     Responds \<lparr>statusCode = status, content_type = ctype, chunks = cs\<rparr>"

text \<open>A server that never answers.\<close>

definition stalling :: "wire \<Rightarrow> reply" where
  "stalling rq = Stalls"

section \<open>Properties\<close>

lemmas sample_defs =
  sample_platform_def sample_client_def sample_world_def sample_URL_def sample_parse_def
  sample_speech_def answering_def stalling_def BASE_URL_def API_VERSION_def no_options_def

lemmas request_defs =
  request_def request_requestOptions_def request_body_def https_request_def
  request_on_end_def request_error_def reading_def search_def startsWith_def

lemma kind_of_ValidationError [simp]: "kind_of (new_ValidationError m d) = VALIDATION"
  by (simp add: kind_of_def new_ValidationError_def new_VoiceAIError_def)

lemma kind_of_AuthenticationError [simp]: "kind_of (new_AuthenticationError m) = AUTHENTICATION"
  by (simp add: kind_of_def new_AuthenticationError_def new_VoiceAIError_def)

subsection \<open>The buffered transport\<close>

lemma add_params_eq:
  "add_params entries u =
     u\<lparr>searchParams :=
         searchParams u @ filter (\<lambda>(key, v). v \<noteq> JUndefined \<and> v \<noteq> JNull) entries\<rparr>"
  by (induction entries u rule: add_params.induct) (simp_all add: searchParams_append_def)

text \<open>Once the URL has resolved to an https one and the body can be written, the
  request goes out and the promise follows the event that comes back.\<close>

lemma request_https:
  assumes "new_URL rt (''/api/'' @ API_VERSION @ endpoint) (baseUrl c) = Some url0"
      and "protocol url0 = ''https:''"
      and "request_body options = Inr b"
  shows "request rt c method endpoint options net w =
     ((case https_request net
              (request_requestOptions rt c method
                 (case params options of None \<Rightarrow> url0 | Some ps \<Rightarrow> add_params ps url0)
                 options, b) of
         OnResponse res \<Rightarrow> request_on_end rt options res
       | OnError cause \<Rightarrow> Rejected (IOError cause)
       | OnTimeout \<Rightarrow>
           Rejected (Err (new_VoiceAIError (JString ''Request timeout'') (Symbolic ''TIMEOUT'')
             JUndefined))
       | Nothing \<Rightarrow> Pending),
      w\<lparr>sent := sent w @
        [(request_requestOptions rt c method
            (case params options of None \<Rightarrow> url0 | Some ps \<Rightarrow> add_params ps url0)
            options, b)]\<rparr>)"
  using assms by (simp add: request_def Let_def)

text \<open>
  Claim C9. The query parameters of a request: the loop appends to the URL's search
  parameters exactly the entries whose value is neither \<^verbatim>\<open>undefined\<close> nor \<^verbatim>\<open>null\<close>,
  in their order and with the value each entry has (so \<^verbatim>\<open>0\<close>, \<^verbatim>\<open>false\<close> and the
  empty string are kept), and the path of the request that goes out is the pathname
  followed by the serialization of that list.
\<close>

theorem query_parameters_omit_nullish:
  assumes "new_URL rt (''/api/'' @ API_VERSION @ endpoint) (baseUrl c) = Some url0"
      and "protocol url0 = ''https:''"
      and "params options = Some entries"
      and "request_body options = Inr b"
  shows "add_params entries url0 =
           url0\<lparr>searchParams :=
                  searchParams url0 @
                  filter (\<lambda>(key, v). v \<noteq> JUndefined \<and> v \<noteq> JNull) entries\<rparr>
       \<and> map (rq_path \<circ> fst) (sent (snd (request rt c method endpoint options net w))) =
           map (rq_path \<circ> fst) (sent w) @
             [pathname url0 @
              search rt (url0\<lparr>searchParams :=
                  searchParams url0 @
                  filter (\<lambda>(key, v). v \<noteq> JUndefined \<and> v \<noteq> JNull) entries\<rparr>)]"
proof -
  have u: "add_params entries url0 =
           url0\<lparr>searchParams :=
                  searchParams url0 @
                  filter (\<lambda>(key, v). v \<noteq> JUndefined \<and> v \<noteq> JNull) entries\<rparr>"
    by (rule add_params_eq)
  have "map (rq_path \<circ> fst) (sent (snd (request rt c method endpoint options net w))) =
        map (rq_path \<circ> fst) (sent w) @
          [pathname (add_params entries url0) @ search rt (add_params entries url0)]"
    by (simp add: request_https [OF assms(1,2,4)] assms(3) request_requestOptions_def Let_def)
  then show ?thesis
    unfolding u by simp
qed

theorem query_parameters_omit_nullish_witness:
  "map (rq_path \<circ> fst) (sent (snd (request sample_platform sample_client ''GET'' ''/tts/voices''
      (no_options\<lparr>params := Some [(''limit'', JNumber 1), (''offset'', JNumber 0),
                                    (''visibility'', JUndefined), (''cursor'', JNull),
                                    (''q'', JString [])]\<rparr>)
      (answering 200 None [''{}'']) sample_world))) =
   [''/api/v1/tts/voices?limit=1&offset=0&q='']"
  using query_parameters_omit_nullish [of sample_platform "''/tts/voices''" sample_client
      "\<lparr>protocol = ''https:'', hostname = ''dev.voice.ai'', port = [],
        pathname = ''/api/v1/tts/voices'', searchParams = []\<rparr>"
      "no_options\<lparr>params := Some [(''limit'', JNumber 1), (''offset'', JNumber 0),
                                    (''visibility'', JUndefined), (''cursor'', JNull),
                                    (''q'', JString [])]\<rparr>"
      "[(''limit'', JNumber 1), (''offset'', JNumber 0), (''visibility'', JUndefined),
        (''cursor'', JNull), (''q'', JString [])]"
      None "''GET''" "answering 200 None [''{}'']" sample_world]
  by (simp add: sample_defs request_body_def search_def)

text \<open>The status branch of the \<^verbatim>\<open>'end'\<close> handler. When both property reads go through,
  the promise is rejected with the error that the specification's table names; the
  validation error and the generic one carry the detail of the body, and the generic
  one the status code.\<close>

lemma request_error_kinds:
  assumes "errorData = (case JSON_parse rt (toString rt buffer) of
               Some v \<Rightarrow> v
             | None \<Rightarrow>
                 JObject [(''error'',
                   JString (if toString rt buffer = [] then ''Unknown error''
                            else toString rt buffer))])"
      and "get_prop errorData ''error'' = Inr m" and "get_prop errorData ''detail'' = Inr d"
  shows "\<exists>e. request_error rt res buffer = Rejected (Err e) \<and>
             kind_of e = status_kind (statusCode res) \<and>
             (statusCode res = 422 \<longrightarrow> details e = dflt d JNull) \<and>
             (status_kind (statusCode res) = GENERIC \<longrightarrow>
                code e = Status (statusCode res) \<and> details e = dflt d JNull)"
  using assms(2,3) unfolding assms(1) [symmetric] request_error_def Let_def
  by (simp add: reading_def status_kind_def kind_of_def new_AuthenticationError_def
        new_PaymentRequiredError_def new_NotFoundError_def new_ValidationError_def
        new_RateLimitError_def new_VoiceAIError_def)

text \<open>When the body is the JSON text of \<^verbatim>\<open>null\<close>, the read of \<^verbatim>\<open>errorData.error\<close>
  throws, whatever the status.\<close>

lemma request_error_null:
  assumes "JSON_parse rt (toString rt buffer) = Some JNull"
  shows "request_error rt res buffer = Uncaught TypeError"
  using assms by (simp add: request_error_def reading_def)

text \<open>
  Claim C1. A buffered request whose response has a status of 400 or more is to be
  rejected with the typed error of its status. At the response \<^verbatim>\<open>401\<close> with the body
  \<^verbatim>\<open>null\<close> the buffered transport does not reject: \<^verbatim>\<open>JSON.parse\<close> gives \<^verbatim>\<open>null\<close>, the
  read of its \<^verbatim>\<open>error\<close> property throws a \<^verbatim>\<open>TypeError\<close> inside the \<^verbatim>\<open>'end'\<close> handler,
  after the \<^verbatim>\<open>try\<close>, and the promise is never settled. The streaming transport, which
  reads the property inside its \<^verbatim>\<open>try\<close>, rejects the same response.
\<close>

theorem request_null_error_body_uncaught:
  "fst (request sample_platform sample_client ''GET'' ''/tts/voices'' no_options
          (answering 401 None [''null'']) sample_world) = Uncaught TypeError
   \<and> fst (streamRequest sample_platform sample_client ''GET'' ''/tts/voices'' no_options
          (answering 401 None [''null'']) sample_world) =
       Inr (Rejected (Err \<lparr>cls = VoiceAIError, message = JString ''Request failed'',
                            code = Status 401, details = JNull\<rparr>))"
  by (simp add: request_defs sample_defs streamRequest_def streamRequest_requestOptions_def
        stream_error_def new_VoiceAIError_def dflt_def)

text \<open>
  Claim C2. A buffered request whose response has a status below 400: when the
  content type starts with \<^verbatim>\<open>audio/\<close> or the caller set \<^verbatim>\<open>binary\<close>, the promise is
  fulfilled with the buffer of the chunks received, in order, and the result is the
  same whatever \<^verbatim>\<open>JSON.parse\<close> would do; otherwise it is fulfilled with the parsed body
  when the body parses, and with the text of the body when it does not. It is never
  rejected.
\<close>

theorem request_success_value:
  assumes "new_URL rt (''/api/'' @ API_VERSION @ endpoint) (baseUrl c) = Some url0"
      and "protocol url0 = ''https:''"
      and "request_body options = Inr b"
      and "net = (\<lambda>rq. Responds res)"
      and "statusCode res < 400"
  shows "fst (request rt c method endpoint options net w) =
           (if startsWith (case content_type res of None \<Rightarrow> [] | Some ct \<Rightarrow> ct) ''audio/''
               \<or> binary options
            then Fulfilled (JBuffer (concat (chunks res)))
            else case JSON_parse rt (toString rt (concat (chunks res))) of
                   Some v \<Rightarrow> Fulfilled v
                 | None \<Rightarrow> Fulfilled (JString (toString rt (concat (chunks res)))))
       \<and> (startsWith (case content_type res of None \<Rightarrow> [] | Some ct \<Rightarrow> ct) ''audio/''
               \<or> binary options \<longrightarrow>
            (\<forall>parse. fst (request (rt\<lparr>JSON_parse := parse\<rparr>) c method endpoint options net w) =
                      Fulfilled (JBuffer (concat (chunks res)))))"
proof -
  have a: "fst (request rt' c method endpoint options net w) = request_on_end rt' options res"
    if "new_URL rt' = new_URL rt" for rt'
  proof -
    from that assms(1)
    have "new_URL rt' (''/api/'' @ API_VERSION @ endpoint) (baseUrl c) = Some url0"
      by simp
    from request_https [OF this assms(2,3)] show ?thesis
      by (simp add: assms(4) https_request_def)
  qed
  have b: "request_on_end rt' options res =
           (if startsWith (case content_type res of None \<Rightarrow> [] | Some ct \<Rightarrow> ct) ''audio/''
               \<or> binary options
            then Fulfilled (JBuffer (concat (chunks res)))
            else case JSON_parse rt' (toString rt' (concat (chunks res))) of
                   Some v \<Rightarrow> Fulfilled v
                 | None \<Rightarrow> Fulfilled (JString (toString rt' (concat (chunks res)))))" for rt'
    using assms(5) by (simp add: request_on_end_def Let_def)
  show ?thesis
    by (simp add: a b)
qed

theorem request_success_value_witness:
  "fst (request sample_platform sample_client ''POST'' ''/tts/speech'' no_options
          (answering 200 (Some ''audio/mpeg'') [''ID3'', ''{}'']) sample_world) =
     Fulfilled (JBuffer ''ID3{}'')
   \<and> fst (request sample_platform sample_client ''GET'' ''/tts/voices'' no_options
          (answering 200 (Some ''application/json'') [''{\"voi'', ''ces\":[]}'']) sample_world) =
     Fulfilled (JObject [(''voices'', JArray [])])
   \<and> fst (request sample_platform sample_client ''GET'' ''/tts/voices'' no_options
          (answering 200 None [''oo'', ''ps'']) sample_world) =
     Fulfilled (JString ''oops'')"
  using
    request_success_value [of sample_platform "''/tts/speech''" sample_client
      "\<lparr>protocol = ''https:'', hostname = ''dev.voice.ai'', port = [],
        pathname = ''/api/v1/tts/speech'', searchParams = []\<rparr>"
      no_options None "answering 200 (Some ''audio/mpeg'') [''ID3'', ''{}'']"
      "\<lparr>statusCode = 200, content_type = Some ''audio/mpeg'', chunks = [''ID3'', ''{}'']\<rparr>"
      "''POST''" sample_world]
    request_success_value [of sample_platform "''/tts/voices''" sample_client
      "\<lparr>protocol = ''https:'', hostname = ''dev.voice.ai'', port = [],
        pathname = ''/api/v1/tts/voices'', searchParams = []\<rparr>"
      no_options None "answering 200 (Some ''application/json'') [''{\"voi'', ''ces\":[]}'']"
      "\<lparr>statusCode = 200, content_type = Some ''application/json'',
        chunks = [''{\"voi'', ''ces\":[]}'']\<rparr>"
      "''GET''" sample_world]
    request_success_value [of sample_platform "''/tts/voices''" sample_client
      "\<lparr>protocol = ''https:'', hostname = ''dev.voice.ai'', port = [],
        pathname = ''/api/v1/tts/voices'', searchParams = []\<rparr>"
      no_options None "answering 200 None [''oo'', ''ps'']"
      "\<lparr>statusCode = 200, content_type = None, chunks = [''oo'', ''ps'']\<rparr>"
      "''GET''" sample_world]
  by (simp add: sample_defs request_body_def startsWith_def fun_eq_iff)

subsection \<open>Local preconditions\<close>

text \<open>
  Claim C5. Local precondition failures come before any network I/O. The constructor
  throws an authentication error for a missing or empty API key. A base URL that
  resolves to a scheme other than https makes both transports fail with a validation
  error. \<^verbatim>\<open>generateSpeech\<close> and \<^verbatim>\<open>streamSpeech\<close> without text, and \<^verbatim>\<open>getVoice\<close>,
  \<^verbatim>\<open>updateVoice\<close> and \<^verbatim>\<open>deleteVoice\<close> without a voice ID, fail with a validation
  error. In each case the world is the one before the call, so nothing was sent,
  whatever the network would have answered. (The constructor and \<^verbatim>\<open>_streamRequest\<close>
  throw; the async methods deliver the error as the rejection of the promise they
  return, decided before the call returns.)
\<close>

theorem local_preconditions_before_network:
  "(\<not> given key \<longrightarrow>
      (\<exists>e. new_VoiceAI key copts = Inl (Err e) \<and> kind_of e = AUTHENTICATION))
   \<and> (new_URL rt (''/api/'' @ API_VERSION @ endpoint) (baseUrl c) = Some u
        \<and> protocol u \<noteq> ''https:'' \<longrightarrow>
      (\<exists>e. request rt c method endpoint options net w = (Rejected (Err e), w)
           \<and> kind_of e = VALIDATION)
      \<and> (\<exists>e. streamRequest rt c method endpoint options net w = (Inl (Err e), w)
           \<and> kind_of e = VALIDATION))
   \<and> (\<not> given (speech_text sopts) \<longrightarrow>
      (\<exists>e. generateSpeech rt c sopts net w = (Rejected (Err e), w) \<and> kind_of e = VALIDATION)
      \<and> (\<exists>e. streamSpeech rt c sopts net w = (Rejected (Err e), w) \<and> kind_of e = VALIDATION))
   \<and> (\<not> given voiceId \<longrightarrow>
      (\<exists>e. getVoice rt c voiceId net w = (Rejected (Err e), w) \<and> kind_of e = VALIDATION)
      \<and> (\<exists>e. updateVoice rt c voiceId updates net w = (Rejected (Err e), w)
           \<and> kind_of e = VALIDATION)
      \<and> (\<exists>e. deleteVoice rt c voiceId net w = (Rejected (Err e), w)
           \<and> kind_of e = VALIDATION))"
proof -
  have 1: "\<not> given key \<longrightarrow>
      (\<exists>e. new_VoiceAI key copts = Inl (Err e) \<and> kind_of e = AUTHENTICATION)"
    by (auto simp: given_def new_VoiceAI_def split: option.splits)
  have 2: "new_URL rt (''/api/'' @ API_VERSION @ endpoint) (baseUrl c) = Some u
        \<and> protocol u \<noteq> ''https:'' \<longrightarrow>
      (\<exists>e. request rt c method endpoint options net w = (Rejected (Err e), w)
           \<and> kind_of e = VALIDATION)
      \<and> (\<exists>e. streamRequest rt c method endpoint options net w = (Inl (Err e), w)
           \<and> kind_of e = VALIDATION)"
    by (simp add: request_def streamRequest_def)
  have 3: "\<not> given (speech_text sopts) \<longrightarrow>
      (\<exists>e. generateSpeech rt c sopts net w = (Rejected (Err e), w) \<and> kind_of e = VALIDATION)
      \<and> (\<exists>e. streamSpeech rt c sopts net w = (Rejected (Err e), w) \<and> kind_of e = VALIDATION)"
    by (auto simp: given_def generateSpeech_def streamSpeech_def text_required_def
          split: option.splits)
  have 4: "\<not> given voiceId \<longrightarrow>
      (\<exists>e. getVoice rt c voiceId net w = (Rejected (Err e), w) \<and> kind_of e = VALIDATION)
      \<and> (\<exists>e. updateVoice rt c voiceId updates net w = (Rejected (Err e), w)
           \<and> kind_of e = VALIDATION)
      \<and> (\<exists>e. deleteVoice rt c voiceId net w = (Rejected (Err e), w)
           \<and> kind_of e = VALIDATION)"
    by (auto simp: given_def getVoice_def updateVoice_def deleteVoice_def voice_id_required_def
          split: option.splits)
  from 1 2 3 4 show ?thesis by blast
qed

theorem local_preconditions_before_network_witness:
  "(\<exists>e. new_VoiceAI (Some []) \<lparr>cfg_baseUrl = None, cfg_timeout = None\<rparr> = Inl (Err e)
        \<and> kind_of e = AUTHENTICATION)
   \<and> (\<exists>e. request sample_platform (sample_client\<lparr>baseUrl := ''http://localhost:8080''\<rparr>)
             ''GET'' ''/tts/voices'' no_options (answering 200 None []) sample_world =
           (Rejected (Err e), sample_world) \<and> kind_of e = VALIDATION)
   \<and> (\<exists>e. streamRequest sample_platform (sample_client\<lparr>baseUrl := ''http://localhost:8080''\<rparr>)
             ''GET'' ''/tts/voices'' no_options (answering 200 None []) sample_world =
           (Inl (Err e), sample_world) \<and> kind_of e = VALIDATION)
   \<and> (\<exists>e. generateSpeech sample_platform (sample_client\<lparr>baseUrl := ''http://localhost:8080''\<rparr>)
             (sample_speech\<lparr>speech_text := Some []\<rparr>)
             (answering 200 None []) sample_world = (Rejected (Err e), sample_world)
        \<and> kind_of e = VALIDATION)
   \<and> (\<exists>e. streamSpeech sample_platform (sample_client\<lparr>baseUrl := ''http://localhost:8080''\<rparr>)
             (sample_speech\<lparr>speech_text := Some []\<rparr>)
             (answering 200 None []) sample_world = (Rejected (Err e), sample_world)
        \<and> kind_of e = VALIDATION)
   \<and> (\<exists>e. getVoice sample_platform (sample_client\<lparr>baseUrl := ''http://localhost:8080''\<rparr>)
             None (answering 200 None []) sample_world =
           (Rejected (Err e), sample_world) \<and> kind_of e = VALIDATION)
   \<and> (\<exists>e. updateVoice sample_platform (sample_client\<lparr>baseUrl := ''http://localhost:8080''\<rparr>)
             None (JObject []) (answering 200 None []) sample_world =
           (Rejected (Err e), sample_world) \<and> kind_of e = VALIDATION)
   \<and> (\<exists>e. deleteVoice sample_platform (sample_client\<lparr>baseUrl := ''http://localhost:8080''\<rparr>)
             None (answering 200 None []) sample_world =
           (Rejected (Err e), sample_world) \<and> kind_of e = VALIDATION)"
proof -
  have u: "new_URL sample_platform (''/api/'' @ API_VERSION @ ''/tts/voices'')
             (baseUrl (sample_client\<lparr>baseUrl := ''http://localhost:8080''\<rparr>)) =
           Some \<lparr>protocol = ''http:'', hostname = ''localhost'', port = ''8080'',
                 pathname = ''/api/v1/tts/voices'', searchParams = []\<rparr>"
    by (simp add: sample_defs)
  have p: "protocol \<lparr>protocol = ''http:'', hostname = ''localhost'', port = ''8080'',
                 pathname = ''/api/v1/tts/voices'', searchParams = []\<rparr> \<noteq> ''https:''"
    by simp
  have g: "\<not> given (Some [])" "\<not> given None"
          "\<not> given (speech_text (sample_speech\<lparr>speech_text := Some []\<rparr>))"
    by (simp_all add: given_def)
  from u p g
    local_preconditions_before_network [of "Some []" "\<lparr>cfg_baseUrl = None, cfg_timeout = None\<rparr>"
      sample_platform "''/tts/voices''" "sample_client\<lparr>baseUrl := ''http://localhost:8080''\<rparr>"
      "\<lparr>protocol = ''http:'', hostname = ''localhost'', port = ''8080'',
        pathname = ''/api/v1/tts/voices'', searchParams = []\<rparr>"
      "''GET''" no_options "answering 200 None []" sample_world
      "sample_speech\<lparr>speech_text := Some []\<rparr>" None "JObject []"]
  show ?thesis
    by blast
qed

subsection \<open>Timeouts\<close>

text \<open>
  Claim C6. A request that stalls for longer than the configured timeout is to
  surface as a timeout error, on the streaming transport as on the buffered one.
  Against a server that never answers, \<^verbatim>\<open>generateSpeech\<close> is rejected with the
  timeout error, while \<^verbatim>\<open>streamSpeech\<close> and \<^verbatim>\<open>streamSpeechToFile\<close> stay pending for
  ever: the request options of \<^verbatim>\<open>_streamRequest\<close> carry no timeout, and it registers
  no \<^verbatim>\<open>'timeout'\<close> listener.
\<close>

theorem stalled_stream_never_times_out:
  "fst (generateSpeech sample_platform sample_client sample_speech stalling sample_world) =
     Rejected (Err \<lparr>cls = VoiceAIError, message = JString ''Request timeout'',
                    code = Symbolic ''TIMEOUT'', details = JNull\<rparr>)
   \<and> fst (streamSpeech sample_platform sample_client sample_speech stalling sample_world) =
     Pending
   \<and> fst (streamSpeechToFile sample_platform sample_client sample_speech ''out.mp3'' stalling []
            sample_world) = Pending
   \<and> map (rq_timeout \<circ> fst)
        (sent (snd (streamSpeech sample_platform sample_client sample_speech stalling
           sample_world))) = [None]"
  by (simp add: request_defs sample_defs generateSpeech_def streamSpeech_def
        streamSpeechToFile_def streamRequest_def streamRequest_requestOptions_def
        speech_body_def new_VoiceAIError_def dflt_def)

subsection \<open>The API key probe\<close>

lemma kind_of_AUTHENTICATION: "kind_of e = AUTHENTICATION \<longleftrightarrow> cls e = AuthenticationError"
  by (cases "cls e") (simp_all add: kind_of_def)

lemma instanceof_AuthenticationError_iff:
  "instanceof_AuthenticationError t \<longleftrightarrow> (\<exists>e. t = Err e \<and> kind_of e = AUTHENTICATION)"
  by (cases t) (simp_all add: kind_of_AUTHENTICATION)

lemma get_prop_Inr:
  "v \<noteq> JNull \<Longrightarrow> v \<noteq> JUndefined \<Longrightarrow> \<exists>x. get_prop v k = Inr x"
  by (cases v) simp_all

lemma request_world:
  "files (snd (request rt c method endpoint options net w)) = files w
   \<and> fs_fault (snd (request rt c method endpoint options net w)) = fs_fault w"
  by (simp add: request_def Let_def split: option.splits sum.splits)

lemma request_error_class:
  assumes "request_error rt res buffer = Rejected (Err e)" and "cls e = AuthenticationError"
  shows "statusCode res = 401"
  using assms
  by (auto simp: request_error_def Let_def reading_def new_AuthenticationError_def
        new_PaymentRequiredError_def new_NotFoundError_def new_ValidationError_def
        new_RateLimitError_def new_VoiceAIError_def split: if_splits sum.splits)

lemma request_on_end_class:
  assumes "request_on_end rt options res = Rejected (Err e)" and "cls e = AuthenticationError"
  shows "statusCode res = 401"
  using assms request_error_class [of rt res "concat (chunks res)" e]
  by (auto simp: request_on_end_def Let_def split: if_splits option.splits)

lemma write_chunk_Inl: "write_chunk v = Inl t \<Longrightarrow> t = TypeError"
  by (cases v) simp_all

lemma request_body_Inl: "request_body options = Inl t \<Longrightarrow> t = TypeError"
  by (cases "write_chunk (body options)")
     (auto simp: request_body_def split: if_splits dest: write_chunk_Inl)

lemma request_authentication_error:
  assumes "fst (request rt c method endpoint options net w) = Rejected (Err e)"
      and "cls e = AuthenticationError"
  shows "\<exists>rq res. sent (snd (request rt c method endpoint options net w)) = sent w @ [rq]
           \<and> net rq = Responds res \<and> statusCode res = 401"
  using assms
  by (auto simp: request_def Let_def https_request_def new_ValidationError_def
        new_VoiceAIError_def
        split: option.splits if_splits sum.splits reply.splits net_event.splits
        dest: request_on_end_class request_body_Inl)


text \<open>\<^verbatim>\<open>validateApiKey\<close> against the outcome of its probe: it is \<^verbatim>\<open>false\<close> exactly when
  the probe is rejected with an authentication error, which only a response with
  status 401 causes; \<^verbatim>\<open>true\<close> exactly when the probe is fulfilled; and every other
  rejection of the probe is passed on. A response with status 401 whose body is not
  the JSON text \<^verbatim>\<open>null\<close> gives \<^verbatim>\<open>false\<close>.\<close>

lemma validateApiKey_outcomes:
  "(fst (validateApiKey rt c net w) = Fulfilled False \<longleftrightarrow>
      (\<exists>e. fst (listVoices rt c probe net w) = Rejected (Err e) \<and> kind_of e = AUTHENTICATION))
   \<and> (fst (validateApiKey rt c net w) = Fulfilled True \<longleftrightarrow>
      (\<exists>v. fst (listVoices rt c probe net w) = Fulfilled v))
   \<and> (\<forall>t. fst (validateApiKey rt c net w) = Rejected t \<longleftrightarrow>
      fst (listVoices rt c probe net w) = Rejected t
      \<and> \<not> (\<exists>e. t = Err e \<and> kind_of e = AUTHENTICATION))
   \<and> snd (validateApiKey rt c net w) = snd (listVoices rt c probe net w)
   \<and> (fst (validateApiKey rt c net w) = Fulfilled False \<longrightarrow>
      (\<exists>rq res. sent (snd (validateApiKey rt c net w)) = sent w @ [rq]
         \<and> net rq = Responds res \<and> statusCode res = 401))
   \<and> (new_URL rt (''/api/'' @ API_VERSION @ ''/tts/voices'') (baseUrl c) = Some u
      \<and> protocol u = ''https:'' \<and> net = (\<lambda>rq. Responds res) \<and> statusCode res = 401
      \<and> JSON_parse rt (toString rt (concat (chunks res))) \<noteq> Some JNull
      \<and> JSON_parse rt (toString rt (concat (chunks res))) \<noteq> Some JUndefined \<longrightarrow>
      fst (validateApiKey rt c net w) = Fulfilled False)"
proof -
  obtain r w1 where l: "listVoices rt c probe net w = (r, w1)"
    by (cases "listVoices rt c probe net w")
  have v: "validateApiKey rt c net w =
      (case r of
         Fulfilled v \<Rightarrow> (Fulfilled True, w1)
       | Rejected error \<Rightarrow>
           (if instanceof_AuthenticationError error then (Fulfilled False, w1)
            else (Rejected error, w1))
       | Pending \<Rightarrow> (Pending, w1)
       | Uncaught t \<Rightarrow> (Uncaught t, w1))"
    using l by (simp add: validateApiKey_def)
  have 1: "fst (validateApiKey rt c net w) = Fulfilled False \<longleftrightarrow>
      (\<exists>e. fst (listVoices rt c probe net w) = Rejected (Err e) \<and> kind_of e = AUTHENTICATION)"
    unfolding v l by (cases r) (auto simp: instanceof_AuthenticationError_iff)
  have 2: "fst (validateApiKey rt c net w) = Fulfilled True \<longleftrightarrow>
      (\<exists>v. fst (listVoices rt c probe net w) = Fulfilled v)"
    unfolding v l by (cases r) auto
  have 3: "fst (validateApiKey rt c net w) = Rejected t \<longleftrightarrow>
      fst (listVoices rt c probe net w) = Rejected t
      \<and> \<not> (\<exists>e. t = Err e \<and> kind_of e = AUTHENTICATION)" for t
    unfolding v l by (cases r) (auto simp: instanceof_AuthenticationError_iff)
  have 4: "snd (validateApiKey rt c net w) = snd (listVoices rt c probe net w)"
    unfolding v l by (cases r) auto
  have 5: "\<exists>rq res. sent (snd (validateApiKey rt c net w)) = sent w @ [rq]
         \<and> net rq = Responds res \<and> statusCode res = 401"
    if "fst (validateApiKey rt c net w) = Fulfilled False"
  proof -
    from that 1 obtain e where
      e: "fst (listVoices rt c probe net w) = Rejected (Err e)" "kind_of e = AUTHENTICATION"
      by blast
    from e(2) have "cls e = AuthenticationError"
      by (simp add: kind_of_AUTHENTICATION)
    with e(1) show ?thesis
      unfolding 4 listVoices_def by (rule request_authentication_error)
  qed
  have 6: "fst (validateApiKey rt c net w) = Fulfilled False"
    if u: "new_URL rt (''/api/'' @ API_VERSION @ ''/tts/voices'') (baseUrl c) = Some u"
      and p: "protocol u = ''https:''" and n: "net = (\<lambda>rq. Responds res)"
      and s: "statusCode res = 401"
      and j: "JSON_parse rt (toString rt (concat (chunks res))) \<noteq> Some JNull"
             "JSON_parse rt (toString rt (concat (chunks res))) \<noteq> Some JUndefined"
  proof -
    define errorData where "errorData =
      (case JSON_parse rt (toString rt (concat (chunks res))) of
         Some v \<Rightarrow> v
       | None \<Rightarrow>
           JObject [(''error'',
             JString (if toString rt (concat (chunks res)) = [] then ''Unknown error''
                      else toString rt (concat (chunks res))))])"
    from j have "errorData \<noteq> JNull" "errorData \<noteq> JUndefined"
      by (auto simp: errorData_def split: option.splits)
    then obtain m d where
      "get_prop errorData ''error'' = Inr m" "get_prop errorData ''detail'' = Inr d"
      using get_prop_Inr by blast
    from request_error_kinds [OF errorData_def this, of res] s
    obtain e where e: "request_error rt res (concat (chunks res)) = Rejected (Err e)"
      "kind_of e = AUTHENTICATION"
      by (auto simp: status_kind_def)
    have b: "request_body (no_options\<lparr>params := Some [(''limit'', dflt (limit probe) (JNumber 10)),
                                     (''offset'', dflt (offset probe) (JNumber 0)),
                                     (''visibility'', visibility probe)]\<rparr>) = Inr None"
      by (simp add: request_body_def no_options_def)
    have "fst (listVoices rt c probe net w) = Rejected (Err e)"
      unfolding listVoices_def request_https [OF u p b]
      using e(1) s by (simp add: n https_request_def request_on_end_def)
    with e(2) 1 show ?thesis by blast
  qed
  from 1 2 3 4 5 6 show ?thesis by blast
qed

text \<open>
  Claim C8. \<^verbatim>\<open>validateApiKey\<close> is to return \<^verbatim>\<open>false\<close> when the server answers the probe
  (\<^verbatim>\<open>listVoices\<close> with limit 1) with status 401. The probe asks for
  \<^verbatim>\<open>/api/v1/tts/voices?limit=1&offset=0\<close>. Answered with 401 and the body \<^verbatim>\<open>{}\<close>,
  \<^verbatim>\<open>validateApiKey\<close> returns \<^verbatim>\<open>false\<close>; answered with 401 and the body \<^verbatim>\<open>null\<close>, it
  returns nothing and rejects nothing: the \<^verbatim>\<open>TypeError\<close> of the buffered transport's
  \<^verbatim>\<open>'end'\<close> handler is thrown past the probe's promise, which never settles.
\<close>

theorem validateApiKey_null_body_uncaught:
  "fst (validateApiKey sample_platform sample_client (answering 401 None [''null''])
          sample_world) = Uncaught TypeError
   \<and> map (rq_path \<circ> fst)
        (sent (snd (validateApiKey sample_platform sample_client (answering 401 None [''null''])
           sample_world))) = [''/api/v1/tts/voices?limit=1&offset=0'']
   \<and> fst (validateApiKey sample_platform sample_client (answering 401 None [''{}''])
          sample_world) = Fulfilled False"
  by (simp add: validateApiKey_def listVoices_def probe_def request_defs sample_defs
        searchParams_append_def dflt_def new_VoiceAIError_def new_AuthenticationError_def)

subsection \<open>Speech to a file\<close>

lemma request_binary_Fulfilled:
  assumes "fst (request rt c method endpoint options net w) = Fulfilled audio"
      and "binary options"
  shows "\<exists>b. audio = JBuffer b"
  using assms
  by (auto simp: request_def Let_def request_on_end_def request_error_def reading_def
        split: option.splits if_splits sum.splits net_event.splits)

lemma generateSpeech_world:
  "files (snd (generateSpeech rt c options net w)) = files w
   \<and> fs_fault (snd (generateSpeech rt c options net w)) = fs_fault w"
  by (simp add: generateSpeech_def request_world split: option.splits)

lemma generateSpeech_Fulfilled:
  assumes "fst (generateSpeech rt c options net w) = Fulfilled audio"
  shows "\<exists>b. audio = JBuffer b"
  using assms
  by (auto simp: generateSpeech_def no_options_def split: option.splits if_splits
        dest!: request_binary_Fulfilled)

text \<open>
  Claim C10. \<^verbatim>\<open>generateSpeechToFile\<close> and the output file. When \<^verbatim>\<open>generateSpeech\<close>
  does not succeed, the files are the ones before the call, the promise is not
  fulfilled, and a rejection is passed on. When it succeeds, its value is a buffer,
  and (the file system accepting the write) the world after the request changes by
  one write of that whole buffer to the output path, and the promise is fulfilled
  with the output path. The files change only when \<^verbatim>\<open>generateSpeech\<close> succeeded, and a
  fulfilled promise means that the file holds the buffer.
\<close>

theorem generateSpeechToFile_atomic:
  "((\<forall>audio. fst (generateSpeech rt c options net w) \<noteq> Fulfilled audio) \<longrightarrow>
      files (snd (generateSpeechToFile rt c options outputPath net w)) = files w
      \<and> snd (generateSpeechToFile rt c options outputPath net w) =
          snd (generateSpeech rt c options net w)
      \<and> (\<forall>p. fst (generateSpeechToFile rt c options outputPath net w) \<noteq> Fulfilled p)
      \<and> (\<forall>t. fst (generateSpeech rt c options net w) = Rejected t \<longrightarrow>
            fst (generateSpeechToFile rt c options outputPath net w) = Rejected t))
   \<and> (\<forall>audio. fst (generateSpeech rt c options net w) = Fulfilled audio
        \<and> fs_fault w outputPath = None \<longrightarrow>
      (\<exists>b. audio = JBuffer b
         \<and> generateSpeechToFile rt c options outputPath net w =
             (Fulfilled outputPath,
              (snd (generateSpeech rt c options net w))\<lparr>files := (files w)(outputPath \<mapsto> b)\<rparr>)))
   \<and> (files (snd (generateSpeechToFile rt c options outputPath net w)) \<noteq> files w \<longrightarrow>
      (\<exists>b. fst (generateSpeech rt c options net w) = Fulfilled (JBuffer b)))
   \<and> (\<forall>p. fst (generateSpeechToFile rt c options outputPath net w) = Fulfilled p \<longrightarrow>
      p = outputPath
      \<and> (\<exists>b. fst (generateSpeech rt c options net w) = Fulfilled (JBuffer b)
            \<and> files (snd (generateSpeechToFile rt c options outputPath net w)) =
                (files w)(outputPath \<mapsto> b)))"
proof -
  obtain r w1 where g: "generateSpeech rt c options net w = (r, w1)"
    by (cases "generateSpeech rt c options net w")
  from generateSpeech_world [of rt c options net w]
  have w1: "files w1 = files w" "fs_fault w1 = fs_fault w"
    by (simp_all add: g)
  have buf: "\<exists>b. audio = JBuffer b" if "r = Fulfilled audio" for audio
    using generateSpeech_Fulfilled [of rt c options net w audio] that by (simp add: g)
  show ?thesis
  proof (cases r)
    case (Fulfilled audio)
    then obtain b where b: "audio = JBuffer b"
      using buf by blast
    show ?thesis
      by (cases "fs_fault w outputPath")
         (simp_all add: generateSpeechToFile_def g Fulfilled b writeFileSync_def w1)
  next
    case (Rejected t)
    then show ?thesis by (simp add: generateSpeechToFile_def g w1)
  next
    case Pending
    then show ?thesis by (simp add: generateSpeechToFile_def g w1)
  next
    case (Uncaught t)
    then show ?thesis by (simp add: generateSpeechToFile_def g w1)
  qed
qed

theorem generateSpeechToFile_atomic_witness:
  "fst (generateSpeechToFile sample_platform sample_client sample_speech ''out.mp3''
          (answering 200 (Some ''audio/mpeg'') [''ID3'', ''xyz'']) sample_world) =
     Fulfilled ''out.mp3''
   \<and> files (snd (generateSpeechToFile sample_platform sample_client sample_speech ''out.mp3''
          (answering 200 (Some ''audio/mpeg'') [''ID3'', ''xyz'']) sample_world)) ''out.mp3'' =
     Some ''ID3xyz''
   \<and> fst (generateSpeechToFile sample_platform sample_client sample_speech ''out.mp3''
          (answering 500 None [''oops'']) sample_world) =
     Rejected (Err \<lparr>cls = VoiceAIError, message = JString ''oops'', code = Status 500,
                    details = JNull\<rparr>)
   \<and> files (snd (generateSpeechToFile sample_platform sample_client sample_speech ''out.mp3''
          (answering 500 None [''oops'']) sample_world)) ''out.mp3'' = None"
  using
    generateSpeechToFile_atomic [of sample_platform sample_client sample_speech
      "answering 200 (Some ''audio/mpeg'') [''ID3'', ''xyz'']" sample_world "''out.mp3''"]
  by (simp add: generateSpeechToFile_def generateSpeech_def writeFileSync_def request_defs
        sample_defs speech_body_def new_VoiceAIError_def dflt_def)

subsection \<open>The streaming transport\<close>

lemmas stream_defs =
  streamRequest_def streamRequest_requestOptions_def stream_error_def https_request_def

lemma search_empty: "search rt u = [] \<longleftrightarrow> searchParams u = []"
  by (simp add: search_def)

text \<open>
  Claim C7, as the specification states it, fails: with one query parameter the
  buffered transport requests the path with the query string and the streaming
  transport the path without it.
\<close>

theorem stream_request_params_counterexample:
  "map (rq_path \<circ> fst)
     (sent (snd (request sample_platform sample_client ''POST'' ''/tts/speech/stream''
        (no_options\<lparr>params := Some [(''limit'', JNumber 1)]\<rparr>) (answering 200 None [])
        sample_world))) = [''/api/v1/tts/speech/stream?limit=1'']
   \<and> map (rq_path \<circ> fst)
     (sent (snd (streamRequest sample_platform sample_client ''POST'' ''/tts/speech/stream''
        (no_options\<lparr>params := Some [(''limit'', JNumber 1)]\<rparr>) (answering 200 None [])
        sample_world))) = [''/api/v1/tts/speech/stream'']
   \<and> map (rq_path \<circ> fst)
     (sent (snd (request sample_platform sample_client ''POST'' ''/tts/speech/stream''
        (no_options\<lparr>params := Some [(''limit'', JNumber 1)]\<rparr>) (answering 200 None [])
        sample_world))) \<noteq>
     map (rq_path \<circ> fst)
     (sent (snd (streamRequest sample_platform sample_client ''POST'' ''/tts/speech/stream''
        (no_options\<lparr>params := Some [(''limit'', JNumber 1)]\<rparr>) (answering 200 None [])
        sample_world)))"
  by (simp add: request_defs stream_defs sample_defs searchParams_append_def)

text \<open>
  Claim C7, amended. The streaming transport resolves the URL and validates its
  scheme as the buffered transport does: where one fails before sending, the other
  fails with the same error and neither sends. Where both send, they send with
  the same method to the same host and port; the streaming transport's path is the
  pathname of the URL alone, the buffered transport's the pathname followed by the
  serialized query; so the two paths are equal exactly when there is no query to
  serialize: the URL carries no search parameter and every entry of \<^verbatim>\<open>params\<close> is
  \<^verbatim>\<open>undefined\<close> or \<^verbatim>\<open>null\<close>.
\<close>

theorem stream_request_same_target:
  "((new_URL rt (''/api/'' @ API_VERSION @ endpoint) (baseUrl c) = None
       \<or> (\<exists>u. new_URL rt (''/api/'' @ API_VERSION @ endpoint) (baseUrl c) = Some u
              \<and> protocol u \<noteq> ''https:'')) \<longrightarrow>
      (\<exists>t. request rt c method endpoint options net w = (Rejected t, w)
          \<and> streamRequest rt c method endpoint options net w = (Inl t, w)))
   \<and> (new_URL rt (''/api/'' @ API_VERSION @ endpoint) (baseUrl c) = Some u
        \<and> protocol u = ''https:'' \<and> request_body options = Inr b
        \<and> entries = (case params options of None \<Rightarrow> [] | Some ps \<Rightarrow> ps) \<longrightarrow>
      (\<exists>ro_b ro_s b_s.
          sent (snd (request rt c method endpoint options net w)) = sent w @ [(ro_b, b)]
        \<and> sent (snd (streamRequest rt c method endpoint options net w)) = sent w @ [(ro_s, b_s)]
        \<and> rq_method ro_s = rq_method ro_b
        \<and> rq_hostname ro_s = rq_hostname ro_b
        \<and> rq_port ro_s = rq_port ro_b
        \<and> rq_path ro_s = pathname u
        \<and> rq_path ro_b =
            pathname u @
            search rt (u\<lparr>searchParams := searchParams u @
              filter (\<lambda>(key, v). v \<noteq> JUndefined \<and> v \<noteq> JNull) entries\<rparr>)
        \<and> (rq_path ro_s = rq_path ro_b \<longleftrightarrow>
             searchParams u = [] \<and> (\<forall>(key, v) \<in> set entries. v = JUndefined \<or> v = JNull))))"
proof -
  have 1: "\<exists>t. request rt c method endpoint options net w = (Rejected t, w)
          \<and> streamRequest rt c method endpoint options net w = (Inl t, w)"
    if "new_URL rt (''/api/'' @ API_VERSION @ endpoint) (baseUrl c) = None
       \<or> (\<exists>u. new_URL rt (''/api/'' @ API_VERSION @ endpoint) (baseUrl c) = Some u
              \<and> protocol u \<noteq> ''https:'')"
    using that by (auto simp: request_def streamRequest_def)
  have 2: "\<exists>ro_b ro_s b_s.
          sent (snd (request rt c method endpoint options net w)) = sent w @ [(ro_b, b)]
        \<and> sent (snd (streamRequest rt c method endpoint options net w)) = sent w @ [(ro_s, b_s)]
        \<and> rq_method ro_s = rq_method ro_b
        \<and> rq_hostname ro_s = rq_hostname ro_b
        \<and> rq_port ro_s = rq_port ro_b
        \<and> rq_path ro_s = pathname u
        \<and> rq_path ro_b =
            pathname u @
            search rt (u\<lparr>searchParams := searchParams u @
              filter (\<lambda>(key, v). v \<noteq> JUndefined \<and> v \<noteq> JNull) entries\<rparr>)
        \<and> (rq_path ro_s = rq_path ro_b \<longleftrightarrow>
             searchParams u = [] \<and> (\<forall>(key, v) \<in> set entries. v = JUndefined \<or> v = JNull))"
    if u: "new_URL rt (''/api/'' @ API_VERSION @ endpoint) (baseUrl c) = Some u"
      and p: "protocol u = ''https:''" and rb: "request_body options = Inr b"
      and en: "entries = (case params options of None \<Rightarrow> [] | Some ps \<Rightarrow> ps)"
  proof -
    define u' where "u' = u\<lparr>searchParams := searchParams u @
              filter (\<lambda>(key, v). v \<noteq> JUndefined \<and> v \<noteq> JNull) entries\<rparr>"
    have a: "(case params options of None \<Rightarrow> u | Some ps \<Rightarrow> add_params ps u) = u'"
      by (simp add: en u'_def add_params_eq split: option.splits)
    have f: "filter (\<lambda>(key, v). v \<noteq> JUndefined \<and> v \<noteq> JNull) entries = [] \<longleftrightarrow>
             (\<forall>(key, v) \<in> set entries. v = JUndefined \<or> v = JNull)"
      by (auto simp: filter_empty_conv)
    have sb: "sent (snd (request rt c method endpoint options net w)) =
              sent w @ [(request_requestOptions rt c method u' options, b)]"
      by (simp add: request_https [OF u p rb] a)
    have ss: "sent (snd (streamRequest rt c method endpoint options net w)) =
              sent w @ [(streamRequest_requestOptions c method u options,
                         if truthy (body options) then Some (Stringified (body options))
                         else None)]"
      using u p by (simp add: streamRequest_def Let_def)
    have e: "rq_path (streamRequest_requestOptions c method u options) =
             rq_path (request_requestOptions rt c method u' options) \<longleftrightarrow>
             searchParams u = [] \<and> (\<forall>(key, v) \<in> set entries. v = JUndefined \<or> v = JNull)"
      using f
      by (simp add: streamRequest_requestOptions_def request_requestOptions_def Let_def u'_def
            search_empty)
    show ?thesis
      using sb ss e
      by (simp add: streamRequest_requestOptions_def request_requestOptions_def Let_def
            u'_def [symmetric]) (simp add: u'_def)
  qed
  from 1 2 show ?thesis by blast
qed

theorem stream_request_same_target_witness:
  "map (rq_path \<circ> fst)
     (sent (snd (request sample_platform sample_client ''POST'' ''/tts/speech/stream''
        (no_options\<lparr>params := Some [(''model'', JUndefined), (''seed'', JNull)]\<rparr>)
        (answering 200 None []) sample_world))) = [''/api/v1/tts/speech/stream'']
   \<and> map (rq_path \<circ> fst)
     (sent (snd (streamRequest sample_platform sample_client ''POST'' ''/tts/speech/stream''
        (no_options\<lparr>params := Some [(''model'', JUndefined), (''seed'', JNull)]\<rparr>)
        (answering 200 None []) sample_world))) = [''/api/v1/tts/speech/stream'']"
  using
    stream_request_same_target [of sample_platform "''/tts/speech/stream''" sample_client
      "''POST''" "no_options\<lparr>params := Some [(''model'', JUndefined), (''seed'', JNull)]\<rparr>"
      "answering 200 None []" sample_world
      "\<lparr>protocol = ''https:'', hostname = ''dev.voice.ai'', port = [],
        pathname = ''/api/v1/tts/speech/stream'', searchParams = []\<rparr>"
      None "[(''model'', JUndefined), (''seed'', JNull)]"]
  by (simp add: request_defs stream_defs sample_defs)

text \<open>
  Claim C4. A streaming request that is answered with a status of 400 or more:
  \<^verbatim>\<open>streamSpeechToFile\<close> is rejected with a plain \<^verbatim>\<open>VoiceAIError\<close> (the generic kind)
  whose code is that status, whose message is \<^verbatim>\<open>Request failed\<close> when the body does
  not parse as JSON, and the files are the ones before the call, whatever events
  would follow.
\<close>

theorem streamSpeechToFile_error_status:
  assumes "speech_text options = Some t" and "t \<noteq> []"
      and "new_URL rt (''/api/'' @ API_VERSION @ ''/tts/speech/stream'') (baseUrl c) = Some u"
      and "protocol u = ''https:''"
      and "net = (\<lambda>rq. Responds res)"
      and "statusCode res \<ge> 400"
  shows "\<exists>e w'. streamSpeechToFile rt c options outputPath net evs w = (Rejected (Err e), w')
           \<and> kind_of e = GENERIC
           \<and> code e = Status (statusCode res)
           \<and> (JSON_parse rt (toString rt (concat (chunks res))) = None \<longrightarrow>
                message e = JString ''Request failed'')
           \<and> files w' = files w"
proof -
  have k: "kind_of (new_VoiceAIError m (Status n) d) = GENERIC" for m n d
    by (simp add: kind_of_def new_VoiceAIError_def)
  have c: "code (new_VoiceAIError m (Status n) d) = Status n"
          "message (new_VoiceAIError m (Status n) d) = m" for m n d
    by (simp_all add: new_VoiceAIError_def)
  have "\<exists>e. stream_error rt res = Rejected (Err e) \<and> kind_of e = GENERIC
          \<and> code e = Status (statusCode res)
          \<and> (JSON_parse rt (toString rt (concat (chunks res))) = None \<longrightarrow>
                message e = JString ''Request failed'')"
  proof (cases "JSON_parse rt (toString rt (concat (chunks res)))")
    case None
    then show ?thesis by (simp add: stream_error_def k c)
  next
    case (Some errorData)
    then show ?thesis
      by (cases "get_prop errorData ''error''") (simp_all add: stream_error_def k c)
  qed
  then obtain e where e: "stream_error rt res = Rejected (Err e)" "kind_of e = GENERIC"
      "code e = Status (statusCode res)"
      "JSON_parse rt (toString rt (concat (chunks res))) = None \<longrightarrow>
         message e = JString ''Request failed''"
    by auto
  have "streamSpeechToFile rt c options outputPath net evs w =
          (Rejected (Err e),
           w\<lparr>sent := sent w @
             [(streamRequest_requestOptions c ''POST'' u
                 (no_options\<lparr>body := speech_body t options\<rparr>),
               Some (Stringified (speech_body t options)))]\<rparr>)"
    using assms e(1)
    by (simp add: streamSpeechToFile_def streamSpeech_def streamRequest_def https_request_def
          Let_def no_options_def speech_body_def)
  with e show ?thesis by simp
qed

theorem streamSpeechToFile_error_status_witness:
  "streamSpeechToFile sample_platform sample_client sample_speech ''out.mp3''
     (answering 500 None [''oops''])
     [Sink_open, Src_data ''oops'', Src_end, Sink_written, Sink_finish] sample_world =
   (Rejected (Err \<lparr>cls = VoiceAIError, message = JString ''Request failed'',
                   code = Status 500, details = JNull\<rparr>),
    sample_world\<lparr>sent :=
      [(\<lparr>rq_method = ''POST'', rq_hostname = ''dev.voice.ai'',
         rq_path = ''/api/v1/tts/speech/stream'', rq_port = ''443'',
         rq_headers = [(''Authorization'', ''Bearer key''),
                       (''Content-Type'', ''application/json''),
                       (''User-Agent'', ''VoiceAI-SDK/1.1.4'')],
         rq_timeout = None\<rparr>,
        Some (Stringified (speech_body ''Hello'' sample_speech)))]\<rparr>)"
  using
    streamSpeechToFile_error_status [of sample_speech "''Hello''" sample_platform sample_client
      "\<lparr>protocol = ''https:'', hostname = ''dev.voice.ai'', port = [],
        pathname = ''/api/v1/tts/speech/stream'', searchParams = []\<rparr>"
      "answering 500 None [''oops'']"
      "\<lparr>statusCode = 500, content_type = None, chunks = [''oops'']\<rparr>" "''out.mp3''"
      "[Sink_open, Src_data ''oops'', Src_end, Sink_written, Sink_finish]" sample_world]
  by (simp add: streamSpeechToFile_def streamSpeech_def stream_defs sample_defs
        speech_body_def new_VoiceAIError_def dflt_def fun_eq_iff)

subsection \<open>Streaming to a file\<close>

lemma data_of_append: "data_of (xs @ ys) = data_of xs @ data_of ys"
  by (induction xs rule: data_of.induct) simp_all

lemma data_of_src: "data_of (filter is_src evs) = data_of evs"
  by (induction evs rule: data_of.induct) simp_all

lemma data_of_chunks: "data_of (map Src_data cs @ [Src_end]) = concat cs"
  by (induction cs) simp_all

lemma handle_inv:
  assumes "pipe_inv outputPath acc s" and "enabled (fst s) e"
  shows "pipe_inv outputPath (acc @ data_of [e]) (handle outputPath e s)"
proof (cases s)
  case (Pair p w)
  with assms show ?thesis
    by (cases e) (auto simp: pipe_inv_def split: option.splits list.splits if_splits)
qed

lemma run_inv:
  "pipe_inv outputPath acc s \<Longrightarrow> feasible outputPath s evs \<Longrightarrow>
   pipe_inv outputPath (acc @ data_of evs) (run outputPath s evs)"
proof (induction evs arbitrary: s acc)
  case Nil
  then show ?case by simp
next
  case (Cons e es)
  from Cons.prems have "pipe_inv outputPath (acc @ data_of [e]) (handle outputPath e s)"
    by (simp add: handle_inv)
  from Cons.IH [OF this] Cons.prems(2)
  have "pipe_inv outputPath ((acc @ data_of [e]) @ data_of es) (run outputPath s (e # es))"
    by simp
  moreover have "data_of (e # es) = data_of [e] @ data_of es"
    using data_of_append [of "[e]" es] by simp
  ultimately show ?case by simp
qed

lemma run_append: "run outputPath s (xs @ ys) = run outputPath (run outputPath s xs) ys"
  by (induction xs arbitrary: s) simp_all

lemma failed_no_finish:
  "sink_failed (fst s) \<Longrightarrow> feasible outputPath s evs \<Longrightarrow> Sink_finish \<notin> set evs"
proof (induction evs arbitrary: s)
  case Nil
  then show ?case by simp
next
  case (Cons e es)
  obtain p w where s: "s = (p, w)" by (cases s)
  from Cons.prems s have "sink_failed (fst (handle outputPath e s))"
    by (cases e) (simp_all split: list.splits)
  with Cons.IH Cons.prems(2) have "Sink_finish \<notin> set es" by simp
  moreover from Cons.prems s have "e \<noteq> Sink_finish" by auto
  ultimately show ?case by simp
qed

lemma finished_no_error:
  "sink_finished (fst s) \<Longrightarrow> feasible outputPath s evs \<Longrightarrow> Sink_error cause \<notin> set evs"
proof (induction evs arbitrary: s)
  case Nil
  then show ?case by simp
next
  case (Cons e es)
  obtain p w where s: "s = (p, w)" by (cases s)
  from Cons.prems s have "sink_finished (fst (handle outputPath e s))"
    by (cases e) (simp_all split: list.splits)
  with Cons.IH Cons.prems(2) have "Sink_error cause \<notin> set es" by simp
  moreover from Cons.prems s have "e \<noteq> Sink_error cause" by auto
  ultimately show ?case by simp
qed

lemma finish_no_error:
  "feasible outputPath s evs \<Longrightarrow> Sink_finish \<in> set evs \<Longrightarrow> Sink_error cause \<notin> set evs"
proof (induction evs arbitrary: s)
  case Nil
  then show ?case by simp
next
  case (Cons e es)
  obtain p w where s: "s = (p, w)" by (cases s)
  from Cons.prems(1) have f: "feasible outputPath (handle outputPath e s) es" by simp
  show ?case
  proof (cases e)
    case (Sink_error c)
    with s have "sink_failed (fst (handle outputPath e s))" by simp
    from failed_no_finish [OF this f] Cons.prems(2) Sink_error show ?thesis by simp
  next
    case Sink_finish
    with s have "sink_finished (fst (handle outputPath e s))" by simp
    from finished_no_error [OF this f] Sink_finish show ?thesis by simp
  qed (use Cons.IH [OF f] Cons.prems(2) in auto)
qed

lemma run_pending:
  "promise (fst s) = Pending \<Longrightarrow> Sink_finish \<notin> set evs \<Longrightarrow>
   (\<forall>cause. Src_error cause \<notin> set evs) \<Longrightarrow> (\<forall>cause. Sink_error cause \<notin> set evs) \<Longrightarrow>
   promise (fst (run outputPath s evs)) = Pending"
proof (induction evs arbitrary: s)
  case Nil
  then show ?case by simp
next
  case (Cons e es)
  obtain p w where s: "s = (p, w)" by (cases s)
  from Cons.prems s have "promise (fst (handle outputPath e s)) = Pending"
    by (cases e) (auto split: list.splits)
  with Cons.IH Cons.prems show ?case by simp
qed

lemma run_fulfilled:
  "promise (fst s) = Fulfilled outputPath \<or> promise (fst s) = Pending \<and> Sink_finish \<in> set evs \<Longrightarrow>
   (\<forall>cause. Src_error cause \<notin> set evs) \<Longrightarrow> (\<forall>cause. Sink_error cause \<notin> set evs) \<Longrightarrow>
   promise (fst (run outputPath s evs)) = Fulfilled outputPath"
proof (induction evs arbitrary: s)
  case Nil
  then show ?case by simp
next
  case (Cons e es)
  obtain p w where s: "s = (p, w)" by (cases s)
  from Cons.prems s
  have "promise (fst (handle outputPath e s)) = Fulfilled outputPath
        \<or> promise (fst (handle outputPath e s)) = Pending \<and> Sink_finish \<in> set es"
    by (cases e) (auto simp: settle_def split: list.splits)
  with Cons.IH Cons.prems(2,3) show ?case by simp
qed

lemma run_finished:
  "sink_finished (fst s) \<or> Sink_finish \<in> set evs \<Longrightarrow> sink_finished (fst (run outputPath s evs))"
proof (induction evs arbitrary: s)
  case Nil
  then show ?case by simp
next
  case (Cons e es)
  obtain p w where s: "s = (p, w)" by (cases s)
  from Cons.prems s
  have "sink_finished (fst (handle outputPath e s)) \<or> Sink_finish \<in> set es"
    by (cases e) (auto split: list.splits)
  with Cons.IH show ?case by simp
qed

lemma run_not_failed:
  "\<not> sink_failed (fst s) \<Longrightarrow> (\<forall>cause. Sink_error cause \<notin> set evs) \<Longrightarrow>
   \<not> sink_failed (fst (run outputPath s evs))"
proof (induction evs arbitrary: s)
  case Nil
  then show ?case by simp
next
  case (Cons e es)
  obtain p w where s: "s = (p, w)" by (cases s)
  from Cons.prems s have "\<not> sink_failed (fst (handle outputPath e s))"
    by (cases e) (auto split: list.splits)
  with Cons.IH Cons.prems(2) show ?case by simp
qed

lemma feasible_append:
  "feasible outputPath s (xs @ ys) \<Longrightarrow> feasible outputPath s xs"
  by (induction xs arbitrary: s) simp_all

text \<open>The pipeline alone, from the creation of the write stream: after a feasible
  sequence of events in which the response delivers the chunks \<open>cs\<close> and ends, and
  which holds the \<^verbatim>\<open>'finish'\<close> of the write stream, the promise is fulfilled with the
  output path and the file is the concatenation of the chunks; before the \<^verbatim>\<open>'finish'\<close>
  the promise is pending.\<close>

lemma pipe_writes_all:
  assumes f: "feasible outputPath (pipe0, w1) evs"
      and src: "filter is_src evs = map Src_data cs @ [Src_end]"
      and fin: "Sink_finish \<in> set evs"
  shows "promise (fst (run outputPath (pipe0, w1) evs)) = Fulfilled outputPath"
    and "files (snd (run outputPath (pipe0, w1) evs)) outputPath = Some (concat cs)"
    and "evs = before @ after \<Longrightarrow> Sink_finish \<notin> set before \<Longrightarrow>
         promise (fst (run outputPath (pipe0, w1) before)) = Pending"
proof -
  have nosrc: "Src_error cause \<notin> set evs" for cause
  proof
    assume "Src_error cause \<in> set evs"
    then have "Src_error cause \<in> set (filter is_src evs)" by simp
    then show False unfolding src by auto
  qed
  have nosink: "Sink_error cause \<notin> set evs" for cause
    using finish_no_error [OF f fin] .
  show "promise (fst (run outputPath (pipe0, w1) evs)) = Fulfilled outputPath"
    using nosrc nosink fin by (intro run_fulfilled) (simp_all add: pipe0_def)
  obtain p w2 where r: "run outputPath (pipe0, w1) evs = (p, w2)"
    by (cases "run outputPath (pipe0, w1) evs")
  have "pipe_inv outputPath ([] @ data_of evs) (run outputPath (pipe0, w1) evs)"
    using f by (intro run_inv) (simp_all add: pipe_inv_def pipe0_def)
  moreover have "sink_finished p"
    using run_finished [of "(pipe0, w1)" evs outputPath] fin r by simp
  moreover have "\<not> sink_failed p"
    using run_not_failed [of "(pipe0, w1)" evs outputPath] nosink r by (simp add: pipe0_def)
  moreover have "data_of evs = concat cs"
    using data_of_src [of evs] src data_of_chunks [of cs] by simp
  ultimately show "files (snd (run outputPath (pipe0, w1) evs)) outputPath = Some (concat cs)"
    by (auto simp: r pipe_inv_def split: option.splits)
  show "promise (fst (run outputPath (pipe0, w1) before)) = Pending"
    if "evs = before @ after" "Sink_finish \<notin> set before"
    using that nosrc nosink by (intro run_pending) (auto simp: pipe0_def)
qed

text \<open>Progress. Once the response has ended and \<^verbatim>\<open>end()\<close> was called, a write stream
  that has not failed can emit every event it still owes, and has nothing left to
  do after them; and a run without a failure of the write stream, after which the
  write stream has nothing left to do, holds the \<^verbatim>\<open>'finish'\<close>.\<close>

lemma feasible_append_iff:
  "feasible outputPath s (xs @ ys) \<longleftrightarrow>
     feasible outputPath s xs \<and> feasible outputPath (run outputPath s xs) ys"
  by (induction xs arbitrary: s) simp_all

lemma run_end_called:
  "end_called (fst s) \<or> \<not> sink_failed (fst s) \<and> Src_end \<in> set evs \<Longrightarrow>
   (\<forall>cause. Sink_error cause \<notin> set evs) \<Longrightarrow> end_called (fst (run outputPath s evs))"
proof (induction evs arbitrary: s)
  case Nil
  then show ?case by simp
next
  case (Cons e es)
  obtain p w where s: "s = (p, w)" by (cases s)
  from Cons.prems s
  have "end_called (fst (handle outputPath e s))
        \<or> \<not> sink_failed (fst (handle outputPath e s)) \<and> Src_end \<in> set es"
    by (cases e) (auto split: list.splits)
  with Cons.IH Cons.prems(2) show ?case by simp
qed

lemma run_finished_only:
  "sink_finished (fst (run outputPath s evs)) \<Longrightarrow> \<not> sink_finished (fst s) \<Longrightarrow>
   Sink_finish \<in> set evs"
proof (induction evs arbitrary: s)
  case Nil
  then show ?case by simp
next
  case (Cons e es)
  obtain p w where s: "s = (p, w)" by (cases s)
  show ?case
  proof (cases "e = Sink_finish")
    case True
    then show ?thesis by simp
  next
    case False
    with Cons.prems(2) s have "\<not> sink_finished (fst (handle outputPath e s))"
      by (cases e) (auto split: list.splits)
    with Cons.IH Cons.prems(1) show ?thesis by simp
  qed
qed

lemma written_drains:
  "sink_opened p \<Longrightarrow> \<not> sink_failed p \<Longrightarrow> queue p = q \<Longrightarrow>
   feasible outputPath (p, w) (replicate (length q) Sink_written)
   \<and> fst (run outputPath (p, w) (replicate (length q) Sink_written)) = p\<lparr>queue := []\<rparr>"
proof (induction q arbitrary: p w)
  case Nil
  then show ?case by simp
next
  case (Cons chunk q)
  let ?p = "p\<lparr>queue := q\<rparr>"
  let ?w = "w\<lparr>files := (files w)(outputPath \<mapsto>
                 (case files w outputPath of None \<Rightarrow> [] | Some d \<Rightarrow> d) @ chunk)\<rparr>"
  have h: "handle outputPath Sink_written (p, w) = (?p, ?w)"
    using Cons.prems by simp
  have "sink_opened ?p" "\<not> sink_failed ?p" "queue ?p = q"
    using Cons.prems by simp_all
  from Cons.IH [OF this, of ?w] Cons.prems show ?case
    by (simp add: h)
qed

lemma drain_finishes:
  assumes "\<not> sink_failed p" and "end_called p"
      and "sink_finished p \<longrightarrow> queue p = [] \<and> sink_opened p"
  shows "feasible outputPath (p, w) (drain p)"
    and "quiescent (fst (run outputPath (p, w) (drain p)))"
    and "filter is_src (drain p) = []"
    and "Sink_error cause \<notin> set (drain p)"
proof -
  let ?o = "if sink_opened p then [] else [Sink_open]"
  let ?f = "if sink_finished p then [] else [Sink_finish]"
  obtain p1 w1 where 1: "run outputPath (p, w) ?o = (p1, w1)"
    by (cases "run outputPath (p, w) ?o")
  have p1: "p1 = p\<lparr>sink_opened := True\<rparr>"
    using 1 by (auto split: if_splits)
  have f1: "feasible outputPath (p, w) ?o"
    using assms(1) by simp
  have o1: "sink_opened p1" "\<not> sink_failed p1" "queue p1 = queue p"
    using assms(1) by (simp_all add: p1)
  obtain p2 w2 where 2: "run outputPath (p1, w1) (replicate (length (queue p)) Sink_written) = (p2, w2)"
    by (cases "run outputPath (p1, w1) (replicate (length (queue p)) Sink_written)")
  from written_drains [OF o1, of outputPath w1]
  have f2: "feasible outputPath (p1, w1) (replicate (length (queue p)) Sink_written)"
    and p2: "p2 = p1\<lparr>queue := []\<rparr>"
    by (simp_all add: 2)
  have f3: "feasible outputPath (p2, w2) ?f"
    using assms by (simp add: p2 p1)
  show "feasible outputPath (p, w) (drain p)"
    unfolding drain_def feasible_append_iff 1 2 using f1 f2 f3 by simp
  have "run outputPath (p, w) (drain p) = run outputPath (p2, w2) ?f"
    unfolding drain_def run_append 1 2 ..
  then show "quiescent (fst (run outputPath (p, w) (drain p)))"
    using assms by (auto simp: quiescent_def p2 p1)
  show "filter is_src (drain p) = []"
    by (simp add: drain_def)
  show "Sink_error cause \<notin> set (drain p)"
    by (simp add: drain_def)
qed

lemma src_only_feasible:
  "\<not> src_over (fst s) \<Longrightarrow> feasible outputPath s (map Src_data cs @ [Src_end])"
proof (induction cs arbitrary: s)
  case Nil
  then show ?case by simp
next
  case (Cons chunk cs)
  obtain p w where s: "s = (p, w)" by (cases s)
  from Cons.prems s have "\<not> src_over (fst (handle outputPath (Src_data chunk) s))"
    by simp
  with Cons.IH Cons.prems show ?case by simp
qed

lemma pipe_reaches_finish:
  assumes f: "feasible outputPath (pipe0, w1) evs"
      and src: "filter is_src evs = map Src_data cs @ [Src_end]"
      and nosink: "\<forall>cause. Sink_error cause \<notin> set evs"
      and q: "quiescent (fst (run outputPath (pipe0, w1) evs))"
  shows "Sink_finish \<in> set evs"
proof -
  obtain p w2 where r: "run outputPath (pipe0, w1) evs = (p, w2)"
    by (cases "run outputPath (pipe0, w1) evs")
  have "Src_end \<in> set (filter is_src evs)"
    unfolding src by simp
  then have "Src_end \<in> set evs" by simp
  then have e: "end_called p"
    using run_end_called [of "(pipe0, w1)" evs outputPath] nosink r by (simp add: pipe0_def)
  have nf: "\<not> sink_failed p"
    using run_not_failed [of "(pipe0, w1)" evs outputPath] nosink r by (simp add: pipe0_def)
  from q r nf e have "sink_finished p"
    by (auto simp: quiescent_def)
  with run_finished_only [of outputPath "(pipe0, w1)" evs] r show ?thesis
    by (simp add: pipe0_def)
qed


lemma filter_src_only: "filter is_src (map Src_data cs @ [Src_end]) = map Src_data cs @ [Src_end]"
  by (induction cs) simp_all

text \<open>
  Claim C3. \<^verbatim>\<open>streamSpeechToFile\<close> on a response stream that delivers its chunks and
  closes cleanly. Let \<^verbatim>\<open>streamSpeech\<close> be fulfilled with the response, and take any
  feasible sequence of the events that follow in which the response delivers its
  chunks in order and then ends, and the write stream does not fail. If the
  sequence is complete (the write stream has nothing left to do after it), it holds
  the \<^verbatim>\<open>'finish'\<close>, the promise is fulfilled with the output path and the file at the
  output path is the concatenation of the chunks in arrival order. After every
  part of the sequence that stops before the \<^verbatim>\<open>'finish'\<close> (the end of the response
  included or not) the promise is still pending. The sequence is never stuck: the
  events that the write stream still owes can follow it, and they complete it with
  the same result. Such sequences exist for every list of chunks: the events of
  the response alone are feasible.
\<close>

theorem streamSpeechToFile_writes_stream:
  assumes "streamSpeech rt c options net w = (Fulfilled res, w1)"
  shows "(\<forall>evs. feasible outputPath (pipe0, w1) evs
            \<and> filter is_src evs = map Src_data (chunks res) @ [Src_end]
            \<and> (\<forall>cause. Sink_error cause \<notin> set evs) \<longrightarrow>
          (quiescent (fst (run outputPath (pipe0, w1) evs)) \<longrightarrow>
             Sink_finish \<in> set evs
             \<and> fst (streamSpeechToFile rt c options outputPath net evs w) = Fulfilled outputPath
             \<and> files (snd (streamSpeechToFile rt c options outputPath net evs w)) outputPath =
                 Some (concat (chunks res)))
          \<and> (\<forall>before after. evs = before @ after \<and> Sink_finish \<notin> set before \<longrightarrow>
               fst (streamSpeechToFile rt c options outputPath net before w) = Pending)
          \<and> feasible outputPath (pipe0, w1)
               (evs @ drain (fst (run outputPath (pipe0, w1) evs)))
          \<and> quiescent (fst (run outputPath (pipe0, w1)
               (evs @ drain (fst (run outputPath (pipe0, w1) evs)))))
          \<and> fst (streamSpeechToFile rt c options outputPath net
                    (evs @ drain (fst (run outputPath (pipe0, w1) evs))) w) =
              Fulfilled outputPath
          \<and> files (snd (streamSpeechToFile rt c options outputPath net
                    (evs @ drain (fst (run outputPath (pipe0, w1) evs))) w)) outputPath =
              Some (concat (chunks res)))
       \<and> feasible outputPath (pipe0, w1) (map Src_data (chunks res) @ [Src_end])"
proof -
  have s: "streamSpeechToFile rt c options outputPath net es w =
           (promise (fst (run outputPath (pipe0, w1) es)), snd (run outputPath (pipe0, w1) es))"
    for es
    by (simp add: streamSpeechToFile_def assms split: prod.splits)
  have main: "Sink_finish \<in> set evs
        \<and> promise (fst (run outputPath (pipe0, w1) evs)) = Fulfilled outputPath
        \<and> files (snd (run outputPath (pipe0, w1) evs)) outputPath = Some (concat (chunks res))"
    if f: "feasible outputPath (pipe0, w1) evs"
      and src: "filter is_src evs = map Src_data (chunks res) @ [Src_end]"
      and nosink: "\<forall>cause. Sink_error cause \<notin> set evs"
      and q: "quiescent (fst (run outputPath (pipe0, w1) evs))" for evs
  proof -
    from pipe_reaches_finish [OF f src nosink q] have fin: "Sink_finish \<in> set evs" .
    from fin pipe_writes_all(1,2) [OF f src fin] show ?thesis by simp
  qed
  have pend: "promise (fst (run outputPath (pipe0, w1) before)) = Pending"
    if src: "filter is_src evs = map Src_data (chunks res) @ [Src_end]"
      and nosink: "\<forall>cause. Sink_error cause \<notin> set evs"
      and b: "evs = before @ after" "Sink_finish \<notin> set before" for evs before after
  proof -
    have "Src_error cause \<notin> set evs" for cause
    proof
      assume "Src_error cause \<in> set evs"
      then have "Src_error cause \<in> set (filter is_src evs)" by simp
      then show False unfolding src by auto
    qed
    with nosink b show ?thesis
      by (intro run_pending) (auto simp: pipe0_def)
  qed
  have ext: "feasible outputPath (pipe0, w1) (evs @ drain (fst (run outputPath (pipe0, w1) evs)))
        \<and> quiescent (fst (run outputPath (pipe0, w1)
               (evs @ drain (fst (run outputPath (pipe0, w1) evs)))))
        \<and> filter is_src (evs @ drain (fst (run outputPath (pipe0, w1) evs))) =
            map Src_data (chunks res) @ [Src_end]
        \<and> (\<forall>cause. Sink_error cause \<notin> set (evs @ drain (fst (run outputPath (pipe0, w1) evs))))"
    if f: "feasible outputPath (pipe0, w1) evs"
      and src: "filter is_src evs = map Src_data (chunks res) @ [Src_end]"
      and nosink: "\<forall>cause. Sink_error cause \<notin> set evs" for evs
  proof -
    obtain p w2 where r: "run outputPath (pipe0, w1) evs = (p, w2)"
      by (cases "run outputPath (pipe0, w1) evs")
    have "Src_end \<in> set (filter is_src evs)"
      unfolding src by simp
    then have "Src_end \<in> set evs" by simp
    then have e: "end_called p"
      using run_end_called [of "(pipe0, w1)" evs outputPath] nosink r by (simp add: pipe0_def)
    have nf: "\<not> sink_failed p"
      using run_not_failed [of "(pipe0, w1)" evs outputPath] nosink r by (simp add: pipe0_def)
    have "pipe_inv outputPath ([] @ data_of evs) (run outputPath (pipe0, w1) evs)"
      using f by (intro run_inv) (simp_all add: pipe_inv_def pipe0_def)
    then have i: "sink_finished p \<longrightarrow> queue p = [] \<and> sink_opened p"
      by (simp add: r pipe_inv_def)
    from drain_finishes(1,2) [OF nf e i, where outputPath = outputPath and w = w2]
      drain_finishes(3,4) [OF nf e i] f src nosink show ?thesis
      by (simp add: feasible_append_iff run_append r)
  qed
  have last: "feasible outputPath (pipe0, w1) (map Src_data (chunks res) @ [Src_end])"
    by (rule src_only_feasible) (simp add: pipe0_def)
  show ?thesis
    unfolding s fst_conv snd_conv
    using main pend ext last by (intro conjI allI impI) (blast | simp)+
qed

theorem streamSpeechToFile_writes_stream_witness:
  "fst (streamSpeechToFile sample_platform sample_client sample_speech ''out.mp3''
          (answering 200 (Some ''audio/mpeg'') [''ID3'', ''xyz''])
          [Sink_open, Src_data ''ID3'', Sink_written, Src_data ''xyz'', Src_end, Sink_written,
           Sink_finish] sample_world) = Fulfilled ''out.mp3''
   \<and> files (snd (streamSpeechToFile sample_platform sample_client sample_speech ''out.mp3''
          (answering 200 (Some ''audio/mpeg'') [''ID3'', ''xyz''])
          [Sink_open, Src_data ''ID3'', Sink_written, Src_data ''xyz'', Src_end, Sink_written,
           Sink_finish] sample_world)) ''out.mp3'' = Some ''ID3xyz''
   \<and> fst (streamSpeechToFile sample_platform sample_client sample_speech ''out.mp3''
          (answering 200 (Some ''audio/mpeg'') [''ID3'', ''xyz''])
          [Sink_open, Src_data ''ID3'', Sink_written, Src_data ''xyz'', Src_end, Sink_written]
          sample_world) = Pending
   \<and> fst (streamSpeechToFile sample_platform sample_client sample_speech ''out.mp3''
          (answering 200 (Some ''audio/mpeg'') [''ID3'', ''xyz''])
          ([Src_data ''ID3'', Src_data ''xyz'', Src_end] @
           [Sink_open, Sink_written, Sink_written, Sink_finish]) sample_world) =
       Fulfilled ''out.mp3''"
proof -
  let ?net = "answering 200 (Some ''audio/mpeg'') [''ID3'', ''xyz'']"
  let ?res = "\<lparr>statusCode = 200, content_type = Some ''audio/mpeg'',
               chunks = [''ID3'', ''xyz'']\<rparr>"
  let ?w1 = "snd (streamSpeech sample_platform sample_client sample_speech ?net sample_world)"
  let ?before = "[Sink_open, Src_data ''ID3'', Sink_written, Src_data ''xyz'', Src_end,
                  Sink_written]"
  let ?evs = "[Sink_open, Src_data ''ID3'', Sink_written, Src_data ''xyz'', Src_end,
               Sink_written, Sink_finish]"
  let ?src = "[Src_data ''ID3'', Src_data ''xyz'', Src_end]"
  have 1: "streamSpeech sample_platform sample_client sample_speech ?net sample_world =
           (Fulfilled ?res, ?w1)"
    by (simp add: streamSpeech_def stream_defs sample_defs speech_body_def)
  note t = conjunct1 [OF streamSpeechToFile_writes_stream [OF 1, of "''out.mp3''"]]
  have h: "feasible ''out.mp3'' (pipe0, ?w1) ?evs
           \<and> filter is_src ?evs = map Src_data (chunks ?res) @ [Src_end]
           \<and> (\<forall>cause. Sink_error cause \<notin> set ?evs)"
    by (simp add: pipe0_def)
  have q: "quiescent (fst (run ''out.mp3'' (pipe0, ?w1) ?evs))"
    by (simp add: quiescent_def pipe0_def)
  have 5: "?evs = ?before @ [Sink_finish]" "Sink_finish \<notin> set ?before"
    by simp_all
  note c = t [THEN spec, of ?evs, THEN mp, OF h]
  from conjunct1 [OF c] q
  have a: "fst (streamSpeechToFile sample_platform sample_client sample_speech ''out.mp3''
             ?net ?evs sample_world) = Fulfilled ''out.mp3''"
     and "files (snd (streamSpeechToFile sample_platform sample_client sample_speech
             ''out.mp3'' ?net ?evs sample_world)) ''out.mp3'' = Some (concat (chunks ?res))"
    by blast+
  then have b: "files (snd (streamSpeechToFile sample_platform sample_client sample_speech
             ''out.mp3'' ?net ?evs sample_world)) ''out.mp3'' = Some ''ID3xyz''"
    by simp
  from conjunct1 [OF conjunct2 [OF c]] 5
  have p: "fst (streamSpeechToFile sample_platform sample_client sample_speech ''out.mp3''
             ?net ?before sample_world) = Pending"
    by blast
  have h': "feasible ''out.mp3'' (pipe0, ?w1) ?src
           \<and> filter is_src ?src = map Src_data (chunks ?res) @ [Src_end]
           \<and> (\<forall>cause. Sink_error cause \<notin> set ?src)"
    by (simp add: pipe0_def)
  have d: "drain (fst (run ''out.mp3'' (pipe0, ?w1) ?src)) =
           [Sink_open, Sink_written, Sink_written, Sink_finish]"
    by (simp add: drain_def pipe0_def)
  note c' = t [THEN spec, of ?src, THEN mp, OF h']
  from c' have e: "fst (streamSpeechToFile sample_platform sample_client sample_speech
             ''out.mp3'' ?net (?src @ [Sink_open, Sink_written, Sink_written, Sink_finish])
             sample_world) = Fulfilled ''out.mp3''"
    unfolding d by blast
  from a b p e show ?thesis
    by (intro conjI)
qed

end
